theory Spec2Isabelle
  imports Main "HOL-Library.Sublist"
begin

section \<open>Conventions\<close>

text \<open>
  Go strings are byte strings and are modelled as \<open>string\<close>. An error is its message. A
  Go function that returns \<open>(v, error)\<close> returns a sum: \<open>Inl\<close> carries the error,
  \<open>Inr\<close> the value returned with a nil error; a function that returns only an error returns
  a \<open>string option\<close>, \<open>None\<close> for nil. \<open>NewHTTPConfig\<close> returns a value beside
  its error on every path, and so does its model. A method with a pointer receiver takes the
  receiver's state and returns the new state beside its result.

  A mutex held for a whole call makes the call one step of the state. The channels of the
  store of the tests are buffered channels with their capacity. The channel \<open>readyCh\<close> of
  \<open>NewEnvContext\<close> is made by the caller, who receives from it: a send on it is an output
  of the goroutine, appended to the sequence of values sent on the channel, oldest first.
\<close>

section \<open>Big-segment store: \<open>internal/core/bigsegments/sync_test.go\<close>\<close>

text \<open>
  Modelled from the spec: the declaration of \<open>bigSegmentPatch\<close> is not among the sources (the
  store only reads its fields \<open>Version\<close> and \<open>PreviousVersion\<close>). The spec gives a patch as
  the record of a segment key, a version, a previous version, and the user keys added to and
  removed from the included and the excluded lists.
\<close>

record bigSegmentPatch =
  SegmentKey :: string
  Version :: string
  PreviousVersion :: string
  IncludesAdd :: "string list"
  IncludesRemove :: "string list"
  ExcludesAdd :: "string list"
  ExcludesRemove :: "string list"

text \<open>
  A buffered Go channel: its capacity, and the values sent on it and not yet received, oldest
  first. A send needs room in the buffer; where there is none the sender waits until a receiver
  takes a value off. The functions of the store have no receiver of their own (the test
  receives), so a send without room does not return, which is the value \<open>None\<close>.
\<close>

record 'a chan =
  capacity :: nat
  buffer :: "'a list"

definition make_chan :: "nat \<Rightarrow> 'a chan" where
  "make_chan n = \<lparr>capacity = n, buffer = []\<rparr>"

definition chan_send :: "'a chan \<Rightarrow> 'a \<Rightarrow> 'a chan option" where
  "chan_send ch v =
     (if length (buffer ch) < capacity ch then Some (ch\<lparr>buffer := buffer ch @ [v]\<rparr>) else None)"

definition room :: "'a chan \<Rightarrow> nat" where
  "room ch = capacity ch - length (buffer ch)"

text \<open>
  \<open>bigSegmentStoreMock\<close>: the cursor, and the two channels that the store reports on, each
  made by \<open>newBigSegmentStoreMock\<close> with room for 100 values. The lock is held for the whole
  of \<open>applyPatch\<close> and of \<open>getCursor\<close>. \<open>applyPatch\<close> sets the cursor and then sends the
  patch on \<open>patchCh\<close>: when the channel has no room the call does not return (and holds the
  lock), and its result is \<open>None\<close>.
\<close>

record bigSegmentStoreMock =
  cursor :: string
  patchCh :: "bigSegmentPatch chan"
  syncTimeCh :: "nat chan"

definition newBigSegmentStoreMock :: bigSegmentStoreMock where
  "newBigSegmentStoreMock = \<lparr>cursor = [], patchCh = make_chan 100, syncTimeCh = make_chan 100\<rparr>"

definition applyPatch ::
  "bigSegmentStoreMock \<Rightarrow> bigSegmentPatch \<Rightarrow> ((string + bool) \<times> bigSegmentStoreMock) option" where
  "applyPatch s patch =
     (if cursor s \<noteq> PreviousVersion patch then Some (Inr False, s)
      else (let s = s\<lparr>cursor := Version patch\<rparr>
            in case chan_send (patchCh s) patch of
                 None \<Rightarrow> None
               | Some ch \<Rightarrow> Some (Inr True, s\<lparr>patchCh := ch\<rparr>)))"

definition getCursor :: "bigSegmentStoreMock \<Rightarrow> string + string" where
  "getCursor s = Inr (cursor s)"

definition setSynchronizedOn ::
  "bigSegmentStoreMock \<Rightarrow> nat \<Rightarrow> (string option \<times> bigSegmentStoreMock) option" where
  "setSynchronizedOn s synchronizedOn =
     (case chan_send (syncTimeCh s) synchronizedOn of
        None \<Rightarrow> None
      | Some ch \<Rightarrow> Some (None, s\<lparr>syncTimeCh := ch\<rparr>))"

text \<open>
  A sequence of patches submitted to the store: one call of \<open>applyPatch\<close> after the other,
  each on the store the call before it left. The results of the calls are returned in order;
  when a call does not return, neither does the sequence.
\<close>

fun applyPatch_seq ::
  "bigSegmentStoreMock \<Rightarrow> bigSegmentPatch list \<Rightarrow>
     ((string + bool) list \<times> bigSegmentStoreMock) option" where
  "applyPatch_seq s [] = Some ([], s)"
| "applyPatch_seq s (p # ps) =
     (case applyPatch s p of
        None \<Rightarrow> None
      | Some (r, s') \<Rightarrow>
          (case applyPatch_seq s' ps of
             None \<Rightarrow> None
           | Some (rs, s'') \<Rightarrow> Some (r # rs, s'')))"

text \<open>The patches of a submitted sequence for which the call returned \<open>true\<close>.\<close>

definition applied_patches :: "(string + bool) list \<Rightarrow> bigSegmentPatch list \<Rightarrow> bigSegmentPatch list" where
  "applied_patches rs ps = map snd (filter (\<lambda>(r, p). r = Inr True) (zip rs ps))"

text \<open>The patches of the tests of \<open>sync_test.go\<close>, as \<open>newPatchBuilder\<close> builds them.\<close>

definition patch1 :: bigSegmentPatch where
  "patch1 = \<lparr>SegmentKey = ''segment.g1'', Version = ''1'', PreviousVersion = [],
     IncludesAdd = [''included1'', ''included2''], IncludesRemove = [],
     ExcludesAdd = [''excluded1'', ''excluded2''], ExcludesRemove = []\<rparr>"

definition patch1x :: bigSegmentPatch where
  "patch1x = \<lparr>SegmentKey = ''segment.g1'', Version = ''1x'',
     PreviousVersion = ''non-matching-previous-version'',
     IncludesAdd = [''includedx''], IncludesRemove = [],
     ExcludesAdd = [''excludedx''], ExcludesRemove = []\<rparr>"

definition patch1y :: bigSegmentPatch where
  "patch1y = \<lparr>SegmentKey = ''segment.g1'', Version = ''2'', PreviousVersion = ''1'',
     IncludesAdd = [''includedy''], IncludesRemove = [],
     ExcludesAdd = [''excludedy''], ExcludesRemove = []\<rparr>"

definition patch2 :: bigSegmentPatch where
  "patch2 = \<lparr>SegmentKey = ''segment.g1'', Version = ''2'', PreviousVersion = ''1'',
     IncludesAdd = [], IncludesRemove = [''included1''],
     ExcludesAdd = [], ExcludesRemove = [''excluded1'']\<rparr>"

definition patch2x :: bigSegmentPatch where
  "patch2x = \<lparr>SegmentKey = ''segment.g1'', Version = ''2'',
     PreviousVersion = ''non-matching-previous-version'',
     IncludesAdd = [], IncludesRemove = [''included1''],
     ExcludesAdd = [], ExcludesRemove = [''excluded1'']\<rparr>"

section \<open>Big-segment store contract and synchronizer\<close>

text \<open>
  Modelled from the spec: the big-segment store as the synchronizer uses it, through the
  abstract operations \<open>applyPatch(patch)\<rightarrow>(applied, err)\<close>, \<open>getCursor()\<close> and
  \<open>setSynchronizedOn(t)\<close> of the spec's section 6 (the real store is not among the sources).
  The store holds the cursor, the patches applied to the segment memberships, oldest first, and
  the times recorded by \<open>setSynchronizedOn\<close>. It rejects, returning "not applied" and no
  error, any patch whose previous version does not match the cursor; an applied patch's version
  becomes the new cursor together with the mutation.
\<close>

record bigSegmentStore =
  storeCursor :: string
  storeApplied :: "bigSegmentPatch list"
  storeSynchronizedOn :: "nat list"

text \<open>Modelled from the spec: the store before any patch, with the empty cursor.\<close>

definition emptyStore :: bigSegmentStore where
  "emptyStore = \<lparr>storeCursor = [], storeApplied = [], storeSynchronizedOn = []\<rparr>"

text \<open>Modelled from the spec: \<open>applyPatch(patch)\<rightarrow>(applied, err)\<close>.\<close>

definition store_applyPatch ::
  "bigSegmentStore \<Rightarrow> bigSegmentPatch \<Rightarrow> (string + bool) \<times> bigSegmentStore" where
  "store_applyPatch s patch =
     (if storeCursor s \<noteq> PreviousVersion patch then (Inr False, s)
      else (Inr True, s\<lparr>storeCursor := Version patch, storeApplied := storeApplied s @ [patch]\<rparr>))"

text \<open>Modelled from the spec: \<open>getCursor()\<close>.\<close>

definition store_getCursor :: "bigSegmentStore \<Rightarrow> string + string" where
  "store_getCursor s = Inr (storeCursor s)"

text \<open>Modelled from the spec: \<open>setSynchronizedOn(t)\<close>.\<close>

definition store_setSynchronizedOn ::
  "bigSegmentStore \<Rightarrow> nat \<Rightarrow> string option \<times> bigSegmentStore" where
  "store_setSynchronizedOn s synchronizedOn =
     (None, s\<lparr>storeSynchronizedOn := storeSynchronizedOn s @ [synchronizedOn]\<rparr>)"

text \<open>
  The store of the tests seen through this contract: its cursor, the patches it has reported
  on \<open>patchCh\<close> and the times it has reported on \<open>syncTimeCh\<close>.
\<close>

definition contract_of :: "bigSegmentStoreMock \<Rightarrow> bigSegmentStore" where
  "contract_of s =
     \<lparr>storeCursor = cursor s, storeApplied = buffer (patchCh s),
      storeSynchronizedOn = buffer (syncTimeCh s)\<rparr>"


text \<open>
  Modelled from the spec: the synchronizer (\<open>newDefaultBigSegmentSynchronizer\<close>, its worker
  and its handling of poll responses and stream events) is not among the sources; only its tests
  in \<open>sync_test.go\<close> are. Every definition of this section follows the state machine and
  the algorithm of the spec's section 4.6, run against the store contract above:
  \<^enum> enter Polling with the cursor read from the store; the poll request carries
    \<open>after=<cursor>\<close>, and no query when the cursor is empty (\<open>assertPollRequest\<close>);
  \<^enum> for each patch of the response, in order, call \<open>applyPatch\<close>; a patch whose previous
    version is not the cursor is logged in a warning that includes that version, and the
    remainder of the list is discarded;
  \<^enum> repeat the poll until a response is empty, and only then \<open>setSynchronizedOn(now)\<close>;
  \<^enum> go to Streaming; every \<open>patch\<close> event follows the same rule, and a skipped patch
    closes the stream and restarts the cycle from the first step;
  \<^enum> a stream I/O error enters Backoff, which returns to Polling.
  The spec does not say what follows an error returned by the store: the model stops there and
  returns the error. The tests also see one more poll after each connection of the stream; the
  spec's algorithm has none, and the model follows the spec.
\<close>

text \<open>
  Modelled from the spec: the states of the machine (Idle, Polling, Streaming, Backoff), the
  requests that the synchronizer makes, and the events that it meets: the start, the response
  to a poll, a \<open>patch\<close> event of the stream, a stream I/O error, and the end of the
  backoff. The synchronizer is its state, the store, and what it has requested and logged.
\<close>

datatype syncPhase = Idle | Polling | Streaming | Backoff

datatype syncRequest = PollRequest string | StreamConnect | StreamClose

datatype syncEvent =
    Start
  | PollResponse "bigSegmentPatch list"
  | StreamPatch bigSegmentPatch
  | StreamError
  | RetryElapsed

record synchronizer =
  phase :: syncPhase
  store :: bigSegmentStore
  requests :: "syncRequest list"
  warnings :: "string list"

definition newSynchronizer :: "bigSegmentStore \<Rightarrow> synchronizer" where
  "newSynchronizer s = \<lparr>phase = Idle, store = s, requests = [], warnings = []\<rparr>"

text \<open>
  Modelled from the spec: the query of a poll request, \<open>after=<cursor>\<close>, or none when the
  cursor is empty.
\<close>

definition pollQuery :: "string \<Rightarrow> string" where
  "pollQuery afterVersion = (if afterVersion = [] then [] else ''after='' @ afterVersion)"

text \<open>
  Modelled from the spec: the warning that includes the offending previous version. Its text is
  the part of the message that the tests match, the version between double quotes.
\<close>

definition outOfOrderWarning :: "string \<Rightarrow> string" where
  "outOfOrderWarning previousVersion =
     [CHR 0x22] @ previousVersion @ [CHR 0x22] @ '' which was not the latest''"

text \<open>
  Modelled from the spec: the patches of one response or event (step 2). The result is the
  store's error if there was one, or else whether a patch was skipped, the warnings logged, and
  the store.
\<close>

fun applyPatches ::
  "bigSegmentStore \<Rightarrow> bigSegmentPatch list \<Rightarrow>
     string + (bool \<times> string list \<times> bigSegmentStore)" where
  "applyPatches s [] = Inr (False, [], s)"
| "applyPatches s (p # ps) =
     (case store_applyPatch s p of
        (Inl err, s') \<Rightarrow> Inl err
      | (Inr True, s') \<Rightarrow> applyPatches s' ps
      | (Inr False, s') \<Rightarrow> Inr (True, [outOfOrderWarning (PreviousVersion p)], s'))"

text \<open>Modelled from the spec: entering Polling with the cursor read from the store (step 1).\<close>

definition startPolling :: "synchronizer \<Rightarrow> string + synchronizer" where
  "startPolling y =
     (case store_getCursor (store y) of
        Inl err \<Rightarrow> Inl err
      | Inr c \<Rightarrow> Inr (y\<lparr>phase := Polling, requests := requests y @ [PollRequest (pollQuery c)]\<rparr>))"

text \<open>
  Modelled from the spec: one step of the synchronizer, on an event met at the time \<open>now\<close>
  (steps 1 to 5). An event that the state does not wait for changes nothing.
\<close>

fun syncStep :: "nat \<Rightarrow> synchronizer \<Rightarrow> syncEvent \<Rightarrow> string + synchronizer" where
  "syncStep now y Start = (if phase y = Idle then startPolling y else Inr y)"
| "syncStep now y (PollResponse ps) =
     (if phase y \<noteq> Polling then Inr y
      else case applyPatches (store y) ps of
        Inl err \<Rightarrow> Inl err
      | Inr (skipped, ws, s') \<Rightarrow>
          (if ps = [] then
             (case store_setSynchronizedOn s' now of
                (Some err, s'') \<Rightarrow> Inl err
              | (None, s'') \<Rightarrow>
                  Inr (y\<lparr>phase := Streaming, store := s'',
                         requests := requests y @ [StreamConnect]\<rparr>))
           else startPolling (y\<lparr>store := s', warnings := warnings y @ ws\<rparr>)))"
| "syncStep now y (StreamPatch p) =
     (if phase y \<noteq> Streaming then Inr y
      else case applyPatches (store y) [p] of
        Inl err \<Rightarrow> Inl err
      | Inr (skipped, ws, s') \<Rightarrow>
          (if skipped then
             startPolling (y\<lparr>store := s', warnings := warnings y @ ws,
                             requests := requests y @ [StreamClose]\<rparr>)
           else Inr (y\<lparr>store := s', warnings := warnings y @ ws\<rparr>)))"
| "syncStep now y StreamError =
     (if phase y = Streaming then Inr (y\<lparr>phase := Backoff\<rparr>) else Inr y)"
| "syncStep now y RetryElapsed =
     (if phase y = Backoff then startPolling y else Inr y)"

text \<open>
  Modelled from the spec: the worker over the events it meets, each with the clock's reading
  at the event.
\<close>

fun syncRun :: "synchronizer \<Rightarrow> (nat \<times> syncEvent) list \<Rightarrow> string + synchronizer" where
  "syncRun y [] = Inr y"
| "syncRun y ((now, ev) # evs) =
     (case syncStep now y ev of Inl err \<Rightarrow> Inl err | Inr y' \<Rightarrow> syncRun y' evs)"

text \<open>
  A list of patches in which each patch's previous version is the cursor then current, from
  the cursor \<open>c\<close> on; and the cursor that such a list leaves.
\<close>

fun chained :: "string \<Rightarrow> bigSegmentPatch list \<Rightarrow> bool" where
  "chained c [] = True"
| "chained c (p # ps) = (PreviousVersion p = c \<and> chained (Version p) ps)"

definition cursor_after :: "string \<Rightarrow> bigSegmentPatch list \<Rightarrow> string" where
  "cursor_after c ps = (if ps = [] then c else Version (last ps))"

section \<open>HTTP values of \<open>net/http\<close> and \<open>gorilla/mux\<close>\<close>

text \<open>
  \<open>http.Header\<close> is a map from a header's name to its values, \<open>url.Values\<close> a map from
  a parameter's name to its values; \<open>Get\<close> gives the first value of a name, and the empty
  string when there is none. Go compares header names in their canonical form, which only
  changes the case of letters; the model writes each name in one spelling.
\<close>

type_synonym Header = "string \<rightharpoonup> string list"

definition Header_Get :: "Header \<Rightarrow> string \<Rightarrow> string" where
  "Header_Get h key = (case h key of None \<Rightarrow> [] | Some [] \<Rightarrow> [] | Some (v # vs) \<Rightarrow> v)"

definition Header_Add :: "Header \<Rightarrow> string \<Rightarrow> string \<Rightarrow> Header" where
  "Header_Add h key v = h(key \<mapsto> (case h key of None \<Rightarrow> [v] | Some vs \<Rightarrow> vs @ [v]))"

definition Header_Set :: "Header \<Rightarrow> string \<Rightarrow> string \<Rightarrow> Header" where
  "Header_Set h key v = h(key \<mapsto> [v])"

definition Values_Get :: "(string \<rightharpoonup> string list) \<Rightarrow> string \<Rightarrow> string" where
  "Values_Get v key = (case v key of None \<Rightarrow> [] | Some [] \<Rightarrow> [] | Some (x # xs) \<Rightarrow> x)"

text \<open>
  A request: \<open>Query\<close> is what \<open>req.URL.Query()\<close> returns, \<open>Vars\<close> the route variables
  that \<open>mux.Vars(req)\<close> returns (reading a variable that is not there gives the empty
  string, as reading a Go map does).
\<close>

record Request =
  Method :: string
  URL :: string
  Query :: "string \<rightharpoonup> string list"
  Vars :: "string \<rightharpoonup> string"
  Header :: Header
  Body :: string

definition NewRequest :: "string \<Rightarrow> string \<Rightarrow> string \<Rightarrow> Request" where
  "NewRequest method url body =
     \<lparr>Method = method, URL = url, Query = Map.empty, Vars = Map.empty,
      Header = Map.empty, Body = body\<rparr>"

definition Vars_get :: "Request \<Rightarrow> string \<Rightarrow> string" where
  "Vars_get req key = (case Vars req key of None \<Rightarrow> [] | Some v \<Rightarrow> v)"

text \<open>
  \<open>http.ResponseWriter\<close>, as a \<open>httptest.ResponseRecorder\<close> records it: the status
  code, whether the header has been written, the header map and the body. \<open>WriteHeader\<close>
  sets the code once; the first \<open>Write\<close> writes the header with status 200 if none was
  written. \<open>httptest.NewRecorder\<close> makes a recorder whose code is 200 and whose header is
  not written.
\<close>

record ResponseWriter =
  Code :: nat
  wroteHeader :: bool
  HeaderMap :: Header
  BodyBytes :: string

definition NewRecorder :: ResponseWriter where
  "NewRecorder = \<lparr>Code = 200, wroteHeader = False, HeaderMap = Map.empty, BodyBytes = []\<rparr>"

definition WriteHeader :: "ResponseWriter \<Rightarrow> nat \<Rightarrow> ResponseWriter" where
  "WriteHeader w statusCode =
     (if wroteHeader w then w else w\<lparr>Code := statusCode, wroteHeader := True\<rparr>)"

definition Write :: "ResponseWriter \<Rightarrow> string \<Rightarrow> ResponseWriter" where
  "Write w bytes = (WriteHeader w 200)\<lparr>BodyBytes := BodyBytes w @ bytes\<rparr>"

text \<open>\<open>strconv.Itoa\<close>: the decimal digits of an integer, with a minus sign when negative.\<close>

fun digits :: "nat \<Rightarrow> string" where
  "digits n =
     (if n < 10 then [char_of (48 + n)] else digits (n div 10) @ [char_of (48 + n mod 10)])"

definition Itoa :: "int \<Rightarrow> string" where
  "Itoa i = (if i < 0 then CHR ''-'' # digits (nat (- i)) else digits (nat i))"

section \<open>The tracking pixel: \<open>getEventsImage\<close>\<close>

text \<open>The endpoints of the \<open>events\<close> package that the handlers and the route table name.\<close>

datatype Endpoint =
    ServerSDKEventsEndpoint
  | ServerSDKDiagnosticEventsEndpoint
  | MobileSDKEventsEndpoint
  | MobileSDKDiagnosticEventsEndpoint
  | JavaScriptSDKEventsEndpoint
  | JavaScriptSDKDiagnosticEventsEndpoint

text \<open>
  Modelled from the spec: the constant \<open>events.EventSchemaHeader\<close> is not among the sources;
  the spec names the header \<open>X-LaunchDarkly-Event-Schema\<close>.
\<close>

definition EventSchemaHeader :: string where
  "EventSchemaHeader = ''X-LaunchDarkly-Event-Schema''"

text \<open>
  What \<open>getEventsImage\<close> uses of other packages and is not among the sources: the JSON
  error body of \<open>util.ErrorJSONMsg\<close>, the bytes that \<open>base64.StdEncoding.DecodeString\<close>
  returns (the handler drops its error), the constant \<open>events.SummaryEventsSchemaVersion\<close>
  and the image \<open>browser.Transparent1PixelImageData\<close>.
\<close>

record Imported =
  ErrorJSONMsg :: "string \<Rightarrow> string"
  DecodeString :: "string \<Rightarrow> string"
  SummaryEventsSchemaVersion :: int
  Transparent1PixelImageData :: string

text \<open>
  An event dispatcher gives the handler of an endpoint, or none (\<open>GetHandler\<close>); an
  environment has a dispatcher or none (\<open>GetEventDispatcher\<close>). A handler is a value of
  type \<open>'h\<close>. The goroutine that \<open>getEventsImage\<close> starts builds the request
  \<open>eventsReq\<close> and calls \<open>handler(nullW, eventsReq)\<close>; the call is an output of
  \<open>getEventsImage\<close>: the handler, with the recorder and the request it is given.
\<close>

type_synonym 'h EventDispatcher = "Endpoint \<Rightarrow> 'h option"

definition getEventsImage_goroutine ::
  "Imported \<Rightarrow> 'h \<Rightarrow> string \<Rightarrow> 'h \<times> ResponseWriter \<times> Request" where
  "getEventsImage_goroutine im handler d =
     (let nullW = NewRecorder;
          eventData = DecodeString im d;
          eventsReq = NewRequest ''POST'' [] eventData;
          eventsReq = eventsReq\<lparr>Header :=
            Header_Add (Header eventsReq) ''Content-Type'' ''application/json''\<rparr>;
          eventsReq = eventsReq\<lparr>Header :=
            Header_Add (Header eventsReq) ''X-LaunchDarkly-User-Agent''
              (Header_Get (Header eventsReq) ''X-LaunchDarkly-User-Agent'')\<rparr>;
          eventsReq = eventsReq\<lparr>Header :=
            Header_Add (Header eventsReq) EventSchemaHeader
              (Itoa (SummaryEventsSchemaVersion im))\<rparr>
      in (handler, nullW, eventsReq))"

definition getEventsImage ::
  "Imported \<Rightarrow> 'h EventDispatcher option \<Rightarrow> ResponseWriter \<Rightarrow> Request \<Rightarrow>
     ResponseWriter \<times> ('h \<times> ResponseWriter \<times> Request) list" where
  "getEventsImage im dispatcher w req =
     (case dispatcher of
        None \<Rightarrow>
          (Write (WriteHeader w 503)
             (ErrorJSONMsg im ''Event proxy is not enabled for this environment''), [])
      | Some disp \<Rightarrow>
          (case disp JavaScriptSDKEventsEndpoint of
             None \<Rightarrow>
               (Write (WriteHeader w 503)
                  (ErrorJSONMsg im
                     ''Event proxy for browser clients is not enabled for this environment''),
                [])
           | Some handler \<Rightarrow>
               (let d = Values_Get (Query req) ''d'';
                    started = (if d \<noteq> [] then [getEventsImage_goroutine im handler d] else []);
                    w = w\<lparr>HeaderMap := Header_Set (HeaderMap w) ''Content-Type'' ''image/gif''\<rparr>
                in (Write w (Transparent1PixelImageData im), started))))"

section \<open>SDK kinds and credentials: \<open>sdk_kinds.go\<close>\<close>

type_synonym sdkKind = string

definition serverSdk :: sdkKind where "serverSdk = ''server''"
definition jsClientSdk :: sdkKind where "jsClientSdk = ''js''"
definition mobileSdk :: sdkKind where "mobileSdk = ''mobile''"

text \<open>\<open>config.SDKCredential\<close>: the three kinds of credential that the code constructs.\<close>

datatype SDKCredential = SDKKey string | MobileKey string | EnvironmentID string

text \<open>
  The regular expression \<open>uuidHeaderPattern\<close> is not among the sources. It is a parameter:
  the function that \<open>uuidHeaderPattern.FindStringSubmatch\<close> computes, from a string to the
  list of the whole match and the submatches, the empty list (Go's nil) when nothing matches.
\<close>

definition fetchAuthToken :: "(string \<Rightarrow> string list) \<Rightarrow> Request \<Rightarrow> string + string" where
  "fetchAuthToken uuidHeaderPattern req =
     (let authHdr = Header_Get (Header req) ''Authorization'';
          match = uuidHeaderPattern authHdr
      in if length match = 2 then Inr (match ! 1) else Inl ''no valid token found'')"

definition getSDKCredential ::
  "(string \<Rightarrow> string list) \<Rightarrow> sdkKind \<Rightarrow> Request \<Rightarrow> string + SDKCredential" where
  "getSDKCredential uuidHeaderPattern s req =
     (if s = serverSdk then
        (case fetchAuthToken uuidHeaderPattern req of
           Inr v \<Rightarrow> Inr (SDKKey v) | Inl err \<Rightarrow> Inl err)
      else if s = mobileSdk then
        (case fetchAuthToken uuidHeaderPattern req of
           Inr v \<Rightarrow> Inr (MobileKey v) | Inl err \<Rightarrow> Inl err)
      else if s = jsClientSdk then
        (let v = Vars_get req ''envId''
         in if v = [] then Inl ''environment ID not found in URL'' else Inr (EnvironmentID v))
      else Inl ''unknown SDK kind'')"

text \<open>
  Modelled from the spec: the middleware that answers a request for which
  \<open>getSDKCredential\<close> returns an error is not among the sources. The spec gives the status of
  its answer: 401 for the server and mobile kinds, 404 for the js kind.
\<close>

definition credentialErrorStatus :: "sdkKind \<Rightarrow> nat" where
  "credentialErrorStatus s = (if s = jsClientSdk then 404 else 401)"

section \<open>The route table: \<open>MakeRouter\<close>\<close>

text \<open>
  The router that \<open>MakeRouter\<close> builds, as data. A router of \<open>gorilla/mux\<close> is kept under
  the name of the variable that holds it, with the middleware given to its \<open>Use\<close> and its
  routes in the order of the calls that add them. A route is a path with its handler and
  methods (\<open>Handle\<close>, \<open>HandleFunc\<close>), or a path prefix with the subrouter made for it
  (\<open>PathPrefix(p).Subrouter()\<close>).
  Handlers and middleware that other files define are constructors; a middleware applied to a
  handler in the source (\<open>countMobileConns(h)\<close>, \<open>serverSideMiddlewareStack(h)\<close>) is
  \<open>Wrapped\<close>. The argument of \<open>MakeRouter\<close> is whether the minimum log level is
  \<open>ldlog.Debug\<close>.
\<close>

datatype RouterName =
    router | goalsRouter | clientSideSdkEvalRouter | clientSideSdkEvalXRouter
  | serverSideSdkRouter | serverSideEvalRouter | serverSideEvalXRouter
  | msdkRouter | msdkEvalRouter | msdkEvalXRouter | mobileStreamRouter
  | clientSidePingRouter | clientSideStreamEvalRouter | mobileEventsRouter
  | clientSideBulkEventsRouter | clientSideDiagnosticEventsRouter
  | clientSideImageEventsRouter | serverSideRouter

datatype Measure = BrowserRequests | ServerRequests | MobileRequests

datatype StreamProvider =
    mobileStreamProvider | jsClientStreamProvider
  | serverSideStreamProvider | serverSideFlagsStreamProvider

datatype Middleware =
    GlobalContextLoggersMiddleware
  | RequestLoggerMiddleware
  | corsMiddleware
  | selectEnvironmentByAuthorizationKey sdkKind
  | selectEnvironmentByEnvIDUrlParam
  | requestCountMiddleware Measure
  | chainMiddleware "Middleware list"
  | CORSMethodMiddleware RouterName
  | streamingMiddleware
  | countMobileConns
  | countBrowserConns
  | countServerConns

datatype HandlerFn =
    statusHandler
  | getGoals
  | getEventsImage_handler
  | evaluateAllFeatureFlagsValueOnly sdkKind
  | evaluateAllFeatureFlags sdkKind
  | pollAllFlagsHandler
  | pollFlagHandler
  | pollSegmentHandler
  | pingStreamHandler StreamProvider
  | pingStreamHandlerWithUser sdkKind StreamProvider
  | bulkEventHandler Endpoint
  | streamHandler StreamProvider string
  | Wrapped Middleware HandlerFn

datatype Route =
    Handle string HandlerFn "string list"
  | PathPrefix_Subrouter string RouterName

record Subrouter =
  routerName :: RouterName
  routerUse :: "Middleware list"
  routerRoutes :: "Route list"

definition serverSideStreamLogMessage :: string where
  "serverSideStreamLogMessage = ''Application requested server-side /all stream''"

definition serverSideFlagsOnlyStreamLogMessage :: string where
  "serverSideFlagsOnlyStreamLogMessage = ''Application requested server-side /flags stream''"

definition sdkKeySelector :: Middleware where
  "sdkKeySelector = selectEnvironmentByAuthorizationKey serverSdk"

definition mobileKeySelector :: Middleware where
  "mobileKeySelector = selectEnvironmentByAuthorizationKey mobileSdk"

definition jsClientSelector :: Middleware where
  "jsClientSelector = selectEnvironmentByEnvIDUrlParam"

definition clientSideMiddlewareStack :: Middleware where
  "clientSideMiddlewareStack =
     chainMiddleware [corsMiddleware, jsClientSelector, requestCountMiddleware BrowserRequests]"

definition serverSideMiddlewareStack :: Middleware where
  "serverSideMiddlewareStack =
     chainMiddleware [sdkKeySelector, requestCountMiddleware ServerRequests]"

definition mobileMiddlewareStack :: Middleware where
  "mobileMiddlewareStack =
     chainMiddleware [mobileKeySelector, requestCountMiddleware MobileRequests]"

definition MakeRouter :: "bool \<Rightarrow> Subrouter list" where
  "MakeRouter debug =
   (let mobilePingWithUser = pingStreamHandlerWithUser mobileSdk mobileStreamProvider;
        jsPing = pingStreamHandler jsClientStreamProvider;
        jsPingWithUser = pingStreamHandlerWithUser jsClientSdk jsClientStreamProvider
    in
    [\<lparr>routerName = router,
      routerUse = GlobalContextLoggersMiddleware # (if debug then [RequestLoggerMiddleware] else []),
      routerRoutes =
        [Handle ''/status'' statusHandler [''GET''],
         PathPrefix_Subrouter ''/sdk/goals'' goalsRouter,
         PathPrefix_Subrouter ''/sdk/eval/{envId}/'' clientSideSdkEvalRouter,
         PathPrefix_Subrouter ''/sdk/evalx/{envId}/'' clientSideSdkEvalXRouter,
         PathPrefix_Subrouter ''/sdk/'' serverSideSdkRouter,
         PathPrefix_Subrouter ''/msdk/'' msdkRouter,
         PathPrefix_Subrouter ''/meval'' mobileStreamRouter,
         Handle ''/mping''
           (Wrapped mobileKeySelector (Wrapped countMobileConns (Wrapped streamingMiddleware
              (pingStreamHandler mobileStreamProvider)))) [''GET''],
         PathPrefix_Subrouter ''/ping/{envId}'' clientSidePingRouter,
         PathPrefix_Subrouter ''/eval/{envId}'' clientSideStreamEvalRouter,
         PathPrefix_Subrouter ''/mobile'' mobileEventsRouter,
         PathPrefix_Subrouter ''/events/bulk/{envId}'' clientSideBulkEventsRouter,
         PathPrefix_Subrouter ''/events/diagnostic/{envId}'' clientSideDiagnosticEventsRouter,
         PathPrefix_Subrouter ''/a/{envId}.gif'' clientSideImageEventsRouter,
         PathPrefix_Subrouter [] serverSideRouter]\<rparr>,
     \<lparr>routerName = goalsRouter,
      routerUse = [clientSideMiddlewareStack, CORSMethodMiddleware goalsRouter],
      routerRoutes = [Handle ''/{envId}'' getGoals [''GET'', ''OPTIONS'']]\<rparr>,
     \<lparr>routerName = clientSideSdkEvalRouter,
      routerUse = [clientSideMiddlewareStack, CORSMethodMiddleware clientSideSdkEvalRouter],
      routerRoutes =
        [Handle ''/users/{user}'' (evaluateAllFeatureFlagsValueOnly jsClientSdk) [''GET'', ''OPTIONS''],
         Handle ''/user'' (evaluateAllFeatureFlagsValueOnly jsClientSdk) [''REPORT'', ''OPTIONS'']]\<rparr>,
     \<lparr>routerName = clientSideSdkEvalXRouter,
      routerUse = [clientSideMiddlewareStack, CORSMethodMiddleware clientSideSdkEvalXRouter],
      routerRoutes =
        [Handle ''/users/{user}'' (evaluateAllFeatureFlags jsClientSdk) [''GET'', ''OPTIONS''],
         Handle ''/user'' (evaluateAllFeatureFlags jsClientSdk) [''REPORT'', ''OPTIONS'']]\<rparr>,
     \<lparr>routerName = serverSideSdkRouter,
      routerUse = [],
      routerRoutes =
        [PathPrefix_Subrouter ''/eval/'' serverSideEvalRouter,
         PathPrefix_Subrouter ''/evalx/'' serverSideEvalXRouter,
         Handle ''/flags'' (Wrapped serverSideMiddlewareStack pollAllFlagsHandler) [''GET''],
         Handle ''/flags/{key}'' (Wrapped serverSideMiddlewareStack pollFlagHandler) [''GET''],
         Handle ''/segments/{key}'' (Wrapped serverSideMiddlewareStack pollSegmentHandler) [''GET'']]\<rparr>,
     \<lparr>routerName = serverSideEvalRouter, routerUse = [],
      routerRoutes =
        [Handle ''/users/{user}''
           (Wrapped serverSideMiddlewareStack (evaluateAllFeatureFlagsValueOnly serverSdk)) [''GET''],
         Handle ''/user''
           (Wrapped serverSideMiddlewareStack (evaluateAllFeatureFlagsValueOnly serverSdk)) [''REPORT'']]\<rparr>,
     \<lparr>routerName = serverSideEvalXRouter, routerUse = [],
      routerRoutes =
        [Handle ''/users/{user}''
           (Wrapped serverSideMiddlewareStack (evaluateAllFeatureFlags serverSdk)) [''GET''],
         Handle ''/user''
           (Wrapped serverSideMiddlewareStack (evaluateAllFeatureFlags serverSdk)) [''REPORT'']]\<rparr>,
     \<lparr>routerName = msdkRouter,
      routerUse = [mobileMiddlewareStack],
      routerRoutes =
        [PathPrefix_Subrouter ''/eval/'' msdkEvalRouter,
         PathPrefix_Subrouter ''/evalx/'' msdkEvalXRouter]\<rparr>,
     \<lparr>routerName = msdkEvalRouter,
      routerUse = [],
      routerRoutes =
        [Handle ''/users/{user}'' (evaluateAllFeatureFlagsValueOnly mobileSdk) [''GET''],
         Handle ''/user'' (evaluateAllFeatureFlagsValueOnly mobileSdk) [''REPORT'']]\<rparr>,
     \<lparr>routerName = msdkEvalXRouter,
      routerUse = [],
      routerRoutes =
        [Handle ''/users/{user}'' (evaluateAllFeatureFlags mobileSdk) [''GET''],
         Handle ''/user'' (evaluateAllFeatureFlags mobileSdk) [''REPORT'']]\<rparr>,
     \<lparr>routerName = mobileStreamRouter,
      routerUse = [mobileMiddlewareStack, streamingMiddleware],
      routerRoutes =
        [Handle [] (Wrapped countMobileConns mobilePingWithUser) [''REPORT''],
         Handle ''/{user}'' (Wrapped countMobileConns mobilePingWithUser) [''GET'']]\<rparr>,
     \<lparr>routerName = clientSidePingRouter,
      routerUse = [clientSideMiddlewareStack, CORSMethodMiddleware clientSidePingRouter,
                   streamingMiddleware],
      routerRoutes = [Handle [] (Wrapped countBrowserConns jsPing) [''GET'', ''OPTIONS'']]\<rparr>,
     \<lparr>routerName = clientSideStreamEvalRouter,
      routerUse = [clientSideMiddlewareStack, CORSMethodMiddleware clientSideStreamEvalRouter,
                   streamingMiddleware],
      routerRoutes =
        [Handle ''/{user}'' (Wrapped countBrowserConns jsPingWithUser) [''GET'', ''OPTIONS''],
         Handle [] (Wrapped countBrowserConns jsPingWithUser) [''REPORT'', ''OPTIONS'']]\<rparr>,
     \<lparr>routerName = mobileEventsRouter,
      routerUse = [mobileMiddlewareStack],
      routerRoutes =
        [Handle ''/events/bulk'' (bulkEventHandler MobileSDKEventsEndpoint) [''POST''],
         Handle ''/events'' (bulkEventHandler MobileSDKEventsEndpoint) [''POST''],
         Handle [] (bulkEventHandler MobileSDKEventsEndpoint) [''POST''],
         Handle ''/events/diagnostic'' (bulkEventHandler MobileSDKDiagnosticEventsEndpoint) [''POST'']]\<rparr>,
     \<lparr>routerName = clientSideBulkEventsRouter,
      routerUse = [clientSideMiddlewareStack, CORSMethodMiddleware clientSideBulkEventsRouter],
      routerRoutes =
        [Handle [] (bulkEventHandler JavaScriptSDKEventsEndpoint) [''POST'', ''OPTIONS'']]\<rparr>,
     \<lparr>routerName = clientSideDiagnosticEventsRouter,
      routerUse = [clientSideMiddlewareStack, CORSMethodMiddleware clientSideBulkEventsRouter],
      routerRoutes =
        [Handle [] (bulkEventHandler JavaScriptSDKDiagnosticEventsEndpoint) [''POST'', ''OPTIONS'']]\<rparr>,
     \<lparr>routerName = clientSideImageEventsRouter,
      routerUse = [clientSideMiddlewareStack, CORSMethodMiddleware clientSideImageEventsRouter],
      routerRoutes = [Handle [] getEventsImage_handler [''GET'', ''OPTIONS'']]\<rparr>,
     \<lparr>routerName = serverSideRouter,
      routerUse = [serverSideMiddlewareStack],
      routerRoutes =
        [Handle ''/bulk'' (bulkEventHandler ServerSDKEventsEndpoint) [''POST''],
         Handle ''/diagnostic'' (bulkEventHandler ServerSDKDiagnosticEventsEndpoint) [''POST''],
         Handle ''/all''
           (Wrapped countServerConns (Wrapped streamingMiddleware
              (streamHandler serverSideStreamProvider serverSideStreamLogMessage))) [''GET''],
         Handle ''/flags''
           (Wrapped countServerConns (Wrapped streamingMiddleware
              (streamHandler serverSideFlagsStreamProvider serverSideFlagsOnlyStreamLogMessage)))
           [''GET'']]\<rparr>])"

text \<open>
  The routers that install a CORS-methods middleware, each with the router that the middleware
  was constructed from (the argument of \<open>mux.CORSMethodMiddleware\<close>).
\<close>

definition corsMethodRouters :: "Subrouter list \<Rightarrow> (RouterName \<times> RouterName) list" where
  "corsMethodRouters rs =
     concat (map (\<lambda>r. concat (map (\<lambda>m. case m of CORSMethodMiddleware x \<Rightarrow> [(routerName r, x)]
                                                   | _ \<Rightarrow> []) (routerUse r))) rs)"

text \<open>The path prefix under which a router is mounted, and the router of a name.\<close>

definition prefixesOf :: "Subrouter list \<Rightarrow> RouterName \<Rightarrow> string list" where
  "prefixesOf rs n =
     concat (map (\<lambda>r. concat (map (\<lambda>e. case e of PathPrefix_Subrouter p x \<Rightarrow> (if x = n then [p] else [])
                                                   | _ \<Rightarrow> []) (routerRoutes r))) rs)"

definition subrouter :: "Subrouter list \<Rightarrow> RouterName \<Rightarrow> Subrouter option" where
  "subrouter rs n = find (\<lambda>r. routerName r = n) rs"

section \<open>Environment context: \<open>internal/relayenv/env_context_impl.go\<close>\<close>

text \<open>
  \<open>envContextImpl\<close>, with the fields that the functions modelled here read or write. The
  SDK client, the streams of the environment, the metrics manager and the environment's entry
  in it belong to other packages: their states are values of the types \<open>'c\<close>, \<open>'es\<close>,
  \<open>'mm\<close> and \<open>'me\<close>. A nil pointer or interface is \<open>None\<close>.
\<close>

record ('c, 'es, 'mm, 'me) envContextImpl =
  client :: "'c option"
  name :: string
  envStreams :: 'es
  metricsManager :: "'mm option"
  metricsEnv :: "'me option"
  initErr :: "string option"

definition GetClient :: "('c, 'es, 'mm, 'me) envContextImpl \<Rightarrow> 'c option" where
  "GetClient c = client c"

definition SetClient ::
  "('c, 'es, 'mm, 'me) envContextImpl \<Rightarrow> 'c option \<Rightarrow> ('c, 'es, 'mm, 'me) envContextImpl" where
  "SetClient c cl = c\<lparr>client := cl\<rparr>"

definition GetInitError :: "('c, 'es, 'mm, 'me) envContextImpl \<Rightarrow> string option" where
  "GetInitError c = initErr c"

text \<open>
  \<open>Close\<close>. The two operations it calls are not among the sources and are parameters:
  \<open>EnvStreams.Close\<close>, which returns an error (dropped by \<open>Close\<close>) and changes the
  streams, and \<open>Manager.RemoveEnvironment\<close>, which changes the metrics manager.
\<close>

definition Close ::
  "('es \<Rightarrow> string option \<times> 'es) \<Rightarrow> ('mm \<Rightarrow> 'me \<Rightarrow> 'mm) \<Rightarrow>
     ('c, 'es, 'mm, 'me) envContextImpl \<Rightarrow> string option \<times> ('c, 'es, 'mm, 'me) envContextImpl" where
  "Close EnvStreams_Close RemoveEnvironment c =
     (let c = c\<lparr>envStreams := snd (EnvStreams_Close (envStreams c))\<rparr>;
          c = (case (metricsManager c, metricsEnv c) of
                 (Some mm, Some me) \<Rightarrow> c\<lparr>metricsManager := Some (RemoveEnvironment mm me)\<rparr>
               | _ \<Rightarrow> c)
      in (None, c))"

text \<open>
  The goroutine that \<open>NewEnvContext\<close> starts to initialize the SDK client. Its inputs are
  the flags \<open>IgnoreConnectionErrors\<close> and \<open>ExitOnError\<close> of the main configuration, the
  environment's name, what \<open>clientFactory\<close> returned (a client and an error, each possibly
  nil), the context and the channel \<open>readyCh\<close>: \<open>None\<close> for a nil channel, else the
  values sent on it so far. Its outputs are the context, the channel, the lines logged (with the
  logger and the level) and the status the process exited with, if \<open>os.Exit\<close> was called.
\<close>

record MainConfig =
  IgnoreConnectionErrors :: bool
  ExitOnError :: bool

datatype Logger = envLoggers | loggers

datatype LogLevel = LogError | LogInfo

record ('c, 'es, 'mm, 'me) initOutcome =
  envContext :: "('c, 'es, 'mm, 'me) envContextImpl"
  readyCh :: "('c, 'es, 'mm, 'me) envContextImpl list option"
  logged :: "(Logger \<times> LogLevel \<times> string) list"
  exited :: "nat option"

definition send :: "'a list option \<Rightarrow> 'a \<Rightarrow> 'a list option" where
  "send ch v = (case ch of None \<Rightarrow> None | Some sent \<Rightarrow> Some (sent @ [v]))"

definition NewEnvContext_goroutine ::
  "MainConfig \<Rightarrow> string \<Rightarrow> 'c option \<times> string option \<Rightarrow>
     ('c, 'es, 'mm, 'me) envContextImpl \<Rightarrow> ('c, 'es, 'mm, 'me) envContextImpl list option \<Rightarrow>
     ('c, 'es, 'mm, 'me) initOutcome" where
  "NewEnvContext_goroutine main envName created ctx ch =
     (case created of (cl, err) \<Rightarrow>
        (let ctx = SetClient ctx cl in
         case err of
           Some e \<Rightarrow>
             (let ctx = ctx\<lparr>initErr := Some e\<rparr> in
              if \<not> IgnoreConnectionErrors main then
                (let logs = [(envLoggers, LogError,
                       ''Error initializing LaunchDarkly client for '' @ envName @ '': '' @ e
                         @ [CHR 0x0A])]
                 in if ExitOnError main then
                      \<lparr>envContext = ctx, readyCh = ch, logged = logs, exited = Some 1\<rparr>
                    else
                      \<lparr>envContext = ctx, readyCh = send ch ctx, logged = logs, exited = None\<rparr>)
              else
                \<lparr>envContext = ctx, readyCh = send ch ctx,
                 logged = [(loggers, LogError,
                   ''Ignoring error initializing LaunchDarkly client for '' @ envName @ '': '' @ e
                     @ [CHR 0x0A])],
                 exited = None\<rparr>)
         | None \<Rightarrow>
             \<lparr>envContext = ctx, readyCh = send ch ctx,
              logged = [(loggers, LogInfo,
                ''Initialized LaunchDarkly client for '' @ envName @ [CHR 0x0A])],
              exited = None\<rparr>))"

section \<open>HTTP configuration: \<open>NewHTTPConfig\<close>\<close>

text \<open>
  \<open>strings.TrimSpace\<close> removes the leading and the trailing white space of a string, as
  Unicode defines it. The string is a UTF-8 byte string, so a white space character is one of
  the byte sequences of \<open>spaces\<close>: the six ASCII ones, U+0085, U+00A0, U+1680, U+2000 to
  U+200A, U+2028, U+2029, U+202F, U+205F and U+3000.
\<close>

definition spaces :: "string list" where
  "spaces =
     [[CHR 0x09], [CHR 0x0A], [CHR 0x0B], [CHR 0x0C], [CHR 0x0D], [CHR 0x20],
      [CHR 0xC2, CHR 0x85], [CHR 0xC2, CHR 0xA0], [CHR 0xE1, CHR 0x9A, CHR 0x80],
      [CHR 0xE2, CHR 0x80, CHR 0x80], [CHR 0xE2, CHR 0x80, CHR 0x81],
      [CHR 0xE2, CHR 0x80, CHR 0x82], [CHR 0xE2, CHR 0x80, CHR 0x83],
      [CHR 0xE2, CHR 0x80, CHR 0x84], [CHR 0xE2, CHR 0x80, CHR 0x85],
      [CHR 0xE2, CHR 0x80, CHR 0x86], [CHR 0xE2, CHR 0x80, CHR 0x87],
      [CHR 0xE2, CHR 0x80, CHR 0x88], [CHR 0xE2, CHR 0x80, CHR 0x89],
      [CHR 0xE2, CHR 0x80, CHR 0x8A], [CHR 0xE2, CHR 0x80, CHR 0xA8],
      [CHR 0xE2, CHR 0x80, CHR 0xA9], [CHR 0xE2, CHR 0x80, CHR 0xAF],
      [CHR 0xE2, CHR 0x81, CHR 0x9F], [CHR 0xE3, CHR 0x80, CHR 0x80]]"

function trimPrefixes :: "string list \<Rightarrow> string \<Rightarrow> string" where
  "trimPrefixes seqs s =
     (case find (\<lambda>r. r \<noteq> [] \<and> prefix r s) seqs of
        None \<Rightarrow> s
      | Some r \<Rightarrow> trimPrefixes seqs (drop (length r) s))"
  by pat_completeness auto
termination
proof (relation "measure (\<lambda>(seqs, s). length s)")
  show "wf (measure (\<lambda>(seqs, s). length s))" by simp
next
  fix seqs :: "string list" and s r :: string
  assume "find (\<lambda>r. r \<noteq> [] \<and> prefix r s) seqs = Some r"
  then have "r \<noteq> []" and "prefix r s"
    by (auto simp: find_Some_iff)
  then have "s \<noteq> []" by auto
  with \<open>r \<noteq> []\<close> show "((seqs, drop (length r) s), (seqs, s)) \<in> measure (\<lambda>(seqs, s). length s)"
    by simp
qed

definition TrimSpace :: "string \<Rightarrow> string" where
  "TrimSpace s = rev (trimPrefixes (map rev spaces) (rev (trimPrefixes spaces s)))"

text \<open>\<open>strings.Split(s, ",")\<close>: the substrings between the commas, \<open>[s]\<close> when there is none.\<close>

fun Split_comma :: "string \<Rightarrow> string list" where
  "Split_comma [] = [[]]"
| "Split_comma (c # cs) =
     (if c = CHR '','' then [] # Split_comma cs
      else (case Split_comma cs of x # xs \<Rightarrow> (c # x) # xs | [] \<Rightarrow> [[c]]))"

text \<open>\<open>config.ProxyConfig\<close>, with the fields that \<open>NewHTTPConfig\<close> reads.\<close>

record ProxyConfig =
  Url :: string
  NtlmAuth :: bool
  User :: string
  Password :: string
  Domain_p :: string
  CaCertFiles :: string

datatype ConnectTimeout = DefaultConnectTimeout

datatype TransportOption = ConnectTimeoutOption ConnectTimeout | CACertFileOption string

text \<open>
  \<open>ldcomponents.HTTPConfigurationBuilder\<close>, with the settings that \<open>NewHTTPConfig\<close>
  makes: \<open>UserAgent\<close>, \<open>ProxyURL\<close>, \<open>CACertFile\<close> (one file more each call) and
  \<open>HTTPClientFactory\<close>. \<open>HTTPConfiguration\<close> is the builder with nothing set.
\<close>

record 'f HTTPConfigurationBuilder =
  builderUserAgent :: string
  builderProxyURL :: string
  builderCACertFiles :: "string list"
  builderHTTPClientFactory :: "'f option"

definition HTTPConfiguration :: "'f HTTPConfigurationBuilder" where
  "HTTPConfiguration =
     \<lparr>builderUserAgent = [], builderProxyURL = [], builderCACertFiles = [],
      builderHTTPClientFactory = None\<rparr>"

record ('f, 'c) HTTPConfig =
  ProxyConfig :: ProxyConfig
  SDKHTTPConfigFactory :: "'f HTTPConfigurationBuilder option"
  SDKHTTPConfig :: "'c option"

text \<open>
  What \<open>NewHTTPConfig\<close> calls in other packages and is not among the sources: the constant
  \<open>version.Version\<close>; the error of \<open>url.Parse\<close>, if any; \<open>ldntlm.NewNTLMProxyHTTPClientFactory\<close>,
  which returns a client factory or an error; and the builder's \<open>CreateHTTPConfiguration\<close>,
  which returns a configuration and an error.
\<close>

record ('f, 'c) HTTPLibs =
  version_Version :: string
  url_Parse :: "string \<Rightarrow> string option"
  NewNTLMProxyHTTPClientFactory ::
    "string \<Rightarrow> string \<Rightarrow> string \<Rightarrow> string \<Rightarrow> TransportOption list \<Rightarrow> string + 'f"
  CreateHTTPConfiguration :: "'f HTTPConfigurationBuilder \<Rightarrow> string \<Rightarrow> 'c option \<times> string option"

text \<open>
  \<open>NewHTTPConfig\<close> returns the configuration, the error (\<open>None\<close> for nil) and, third,
  the lines it logs on \<open>logging.GlobalLoggers\<close>.
\<close>

definition NewHTTPConfig ::
  "('f, 'c) HTTPLibs \<Rightarrow> ProxyConfig \<Rightarrow> string \<Rightarrow>
     ('f, 'c) HTTPConfig \<times> string option \<times> string list" where
  "NewHTTPConfig libs proxyConfig sdkKey =
     (let configBuilder = HTTPConfiguration\<lparr>builderUserAgent := ''LDRelay/'' @ version_Version libs\<rparr>;
          ret = \<lparr>ProxyConfig = proxyConfig, SDKHTTPConfigFactory = None, SDKHTTPConfig = None\<rparr>;
          finish = (\<lambda>configBuilder logs.
            case CreateHTTPConfiguration libs configBuilder sdkKey of
              (conf, err) \<Rightarrow>
                (ret\<lparr>SDKHTTPConfigFactory := Some configBuilder, SDKHTTPConfig := conf\<rparr>, err, logs))
      in
      if Url proxyConfig = [] \<and> NtlmAuth proxyConfig then
        (ret, Some ''Cannot specify proxy authentication without a proxy URL'', [])
      else if Url proxyConfig \<noteq> [] \<and> url_Parse libs (Url proxyConfig) \<noteq> None then
        (ret, Some (''Invalid proxy URL: '' @ Url proxyConfig), [])
      else
        (let logs = (if Url proxyConfig \<noteq> []
                     then [''Using proxy server at '' @ Url proxyConfig] else []);
             caCertFiles = Split_comma (TrimSpace (CaCertFiles proxyConfig));
             files = filter (\<lambda>filePath. filePath \<noteq> []) caCertFiles
         in
         if NtlmAuth proxyConfig then
           (if User proxyConfig = [] \<or> Password proxyConfig = [] then
              (ret, Some ''NTLM proxy authentication requires username and password'', logs)
            else
              (let transportOpts =
                     ConnectTimeoutOption DefaultConnectTimeout # map CACertFileOption files
               in case NewNTLMProxyHTTPClientFactory libs (Url proxyConfig) (User proxyConfig)
                         (Password proxyConfig) (Domain_p proxyConfig) transportOpts of
                    Inl err \<Rightarrow> (ret, Some err, logs)
                  | Inr factory \<Rightarrow>
                      finish (configBuilder\<lparr>builderHTTPClientFactory := Some factory\<rparr>)
                        (logs @ [''NTLM proxy authentication enabled''])))
         else
           (let configBuilder = (if Url proxyConfig \<noteq> []
                                 then configBuilder\<lparr>builderProxyURL := Url proxyConfig\<rparr>
                                 else configBuilder);
                configBuilder = configBuilder\<lparr>builderCACertFiles := builderCACertFiles configBuilder @ files\<rparr>
            in finish configBuilder logs)))"

text \<open>
  Stand-ins for the other packages: every URL parses, the NTLM factory is made, and the
  configuration is made from the builder's user agent and the SDK key.
\<close>

definition exampleLibs :: "(string, string \<times> string) HTTPLibs" where
  "exampleLibs =
     \<lparr>version_Version = ''6.0.0'',
      url_Parse = (\<lambda>u. None),
      NewNTLMProxyHTTPClientFactory = (\<lambda>u usr pwd dom opts. Inr ''ntlm''),
      CreateHTTPConfiguration = (\<lambda>b k. (Some (builderUserAgent b, k), None))\<rparr>"

definition noProxy :: ProxyConfig where
  "noProxy = \<lparr>Url = [], NtlmAuth = False, User = [], Password = [], Domain_p = [],
     CaCertFiles = []\<rparr>"

section \<open>The status endpoint\<close>




record environmentStatus =
  sdkKey :: string
  envId :: "string option"
  mobileKey :: "string option"
  status :: string













section \<open>Examples\<close>

text \<open>
  A tracking-pixel request that carries a user agent, with stand-ins for what
  \<open>getEventsImage\<close> imports and a dispatcher that has a handler for the JS events endpoint;
  and a request that carries an SDK key in its \<open>Authorization\<close> header, with a stand-in for
  \<open>uuidHeaderPattern\<close> that finds that one key.
\<close>

definition pixelImported :: Imported where
  "pixelImported =
     \<lparr>ErrorJSONMsg = (\<lambda>m. ''{message: '' @ m @ ''}''),
      DecodeString = (\<lambda>d. if d = ''e30='' then ''{}'' else []),
      SummaryEventsSchemaVersion = 3,
      Transparent1PixelImageData = ''GIF89a''\<rparr>"

definition pixelDispatcher :: "string EventDispatcher" where
  "pixelDispatcher e = (if e = JavaScriptSDKEventsEndpoint then Some ''js-events'' else None)"

definition pixelRequest :: Request where
  "pixelRequest =
     \<lparr>Method = ''GET'', URL = ''/a/507f1f77bcf86cd799439011.gif'',
      Query = [''d'' \<mapsto> [''e30='']],
      Vars = [''envId'' \<mapsto> ''507f1f77bcf86cd799439011''],
      Header = [''User-Agent'' \<mapsto> [''Mozilla/5.0''],
                ''X-LaunchDarkly-User-Agent'' \<mapsto> [''JSClient/2.1.0'']],
      Body = []\<rparr>"

definition keyPattern :: "string \<Rightarrow> string list" where
  "keyPattern h = (if h = ''sdk-98e2b0b4-2688-4a59-9810-1e0e3d7e42d0'' then [h, h] else [])"

definition keyRequest :: Request where
  "keyRequest =
     \<lparr>Method = ''GET'', URL = ''/sdk/flags'', Query = Map.empty, Vars = Map.empty,
      Header = [''Authorization'' \<mapsto> [''sdk-98e2b0b4-2688-4a59-9810-1e0e3d7e42d0'']],
      Body = []\<rparr>"

text \<open>
  A context as \<open>NewEnvContext\<close> hands it to the goroutine, with stand-ins for the states
  of the other packages: the streams are the list of the open streams' names, the metrics
  manager is the list of the environments it holds.
\<close>

definition exampleContext :: "(string, string list, string list, string) envContextImpl" where
  "exampleContext =
     \<lparr>client = None, name = ''production'', envStreams = [''all'', ''flags''],
      metricsManager = Some [''production'', ''staging''], metricsEnv = Some ''production'',
      initErr = None\<rparr>"

section \<open>Properties of the big-segment store\<close>

lemma applyPatch_skip:
  "PreviousVersion p \<noteq> cursor s \<Longrightarrow> applyPatch s p = Some (Inr False, s)"
  by (auto simp: applyPatch_def)

lemma applyPatch_apply:
  "PreviousVersion p = cursor s \<Longrightarrow> 0 < room (patchCh s) \<Longrightarrow>
     applyPatch s p =
       Some (Inr True, s\<lparr>cursor := Version p,
                          patchCh := (patchCh s)\<lparr>buffer := buffer (patchCh s) @ [p]\<rparr>\<rparr>)"
  by (simp add: applyPatch_def chan_send_def room_def Let_def)

lemma applyPatch_blocked:
  "PreviousVersion p = cursor s \<Longrightarrow> room (patchCh s) = 0 \<Longrightarrow> applyPatch s p = None"
  by (simp add: applyPatch_def chan_send_def room_def Let_def)

lemma applyPatch_returned:
  assumes "applyPatch s p = Some (r, s')"
  shows "r = Inr (PreviousVersion p = cursor s)"
    and "room (patchCh s) \<le> Suc (room (patchCh s'))"
    and "PreviousVersion p \<noteq> cursor s \<Longrightarrow> s' = s"
    and "PreviousVersion p = cursor s \<Longrightarrow>
           s' = s\<lparr>cursor := Version p,
                   patchCh := (patchCh s)\<lparr>buffer := buffer (patchCh s) @ [p]\<rparr>\<rparr>"
  using assms
  by (auto simp: applyPatch_def chan_send_def room_def Let_def split: if_splits option.splits)

lemma applyPatch_seq_returns:
  "length ps \<le> room (patchCh s) \<Longrightarrow> \<exists>rs s'. applyPatch_seq s ps = Some (rs, s')"
proof (induction ps arbitrary: s)
  case Nil
  then show ?case by simp
next
  case (Cons p ps)
  then have pos: "0 < room (patchCh s)" by simp
  obtain r s1 where one: "applyPatch s p = Some (r, s1)"
  proof (cases "PreviousVersion p = cursor s")
    case True
    from applyPatch_apply [OF True pos] that show ?thesis by blast
  next
    case False
    from applyPatch_skip [OF False] that show ?thesis by blast
  qed
  from applyPatch_returned(2) [OF one] Cons.prems have "length ps \<le> room (patchCh s1)"
    by simp
  from Cons.IH [OF this] obtain rs s2 where "applyPatch_seq s1 ps = Some (rs, s2)"
    by blast
  with one show ?case by simp
qed

lemma applyPatch_seq_length:
  "applyPatch_seq s ps = Some (rs, s') \<Longrightarrow> length rs = length ps"
  by (induction ps arbitrary: s rs) (auto split: option.splits)

lemma applyPatch_seq_nth:
  "applyPatch_seq s ps = Some (rs, s') \<Longrightarrow> i < length ps \<Longrightarrow>
     \<exists>ri si. applyPatch_seq s (take i ps) = Some (ri, si)
       \<and> rs ! i = Inr (PreviousVersion (ps ! i) = cursor si)"
proof (induction ps arbitrary: s rs i)
  case Nil
  then show ?case by simp
next
  case (Cons p ps)
  from Cons.prems(1) obtain r s1 rs1 where
    one: "applyPatch s p = Some (r, s1)" and rest: "applyPatch_seq s1 ps = Some (rs1, s')"
    and rs: "rs = r # rs1"
    by (auto split: option.splits)
  show ?case
  proof (cases i)
    case 0
    with applyPatch_returned(1) [OF one] rs show ?thesis by simp
  next
    case (Suc j)
    with Cons.prems(2) have "j < length ps" by simp
    from Cons.IH [OF rest this] obtain ri si where
      "applyPatch_seq s1 (take j ps) = Some (ri, si)"
      "rs1 ! j = Inr (PreviousVersion (ps ! j) = cursor si)"
      by blast
    with one rs Suc show ?thesis by simp
  qed
qed

lemma applied_patches_Cons:
  "applied_patches (r # rs) (p # ps) =
     (if r = Inr True then p # applied_patches rs ps else applied_patches rs ps)"
  by (simp add: applied_patches_def)

lemma applyPatch_seq_cursor:
  "applyPatch_seq s ps = Some (rs, s') \<Longrightarrow>
     cursor s' =
       (case applied_patches rs ps of
          [] \<Rightarrow> cursor s
        | q # qs \<Rightarrow> Version (last (q # qs)))"
proof (induction ps arbitrary: s rs)
  case Nil
  then show ?case by (simp add: applied_patches_def)
next
  case (Cons p ps)
  from Cons.prems obtain r s1 rs1 where
    one: "applyPatch s p = Some (r, s1)" and rest: "applyPatch_seq s1 ps = Some (rs1, s')"
    and rs: "rs = r # rs1"
    by (auto split: option.splits)
  note ih = Cons.IH [OF rest]
  show ?case
  proof (cases "PreviousVersion p = cursor s")
    case True
    with applyPatch_returned(1,4) [OF one] have "r = Inr True" "cursor s1 = Version p"
      by simp_all
    with ih rs show ?thesis
      by (simp add: applied_patches_Cons split: list.splits)
  next
    case False
    with applyPatch_returned(1,3) [OF one] have "r = Inr False" "s1 = s"
      by simp_all
    with ih rs show ?thesis
      by (simp add: applied_patches_Cons split: list.splits)
  qed
qed

lemma applyPatch_seq_buffer:
  "applyPatch_seq s ps = Some (rs, s') \<Longrightarrow>
     buffer (patchCh s') = buffer (patchCh s) @ applied_patches rs ps"
proof (induction ps arbitrary: s rs)
  case Nil
  then show ?case by (simp add: applied_patches_def)
next
  case (Cons p ps)
  from Cons.prems obtain r s1 rs1 where
    one: "applyPatch s p = Some (r, s1)" and rest: "applyPatch_seq s1 ps = Some (rs1, s')"
    and rs: "rs = r # rs1"
    by (auto split: option.splits)
  note ih = Cons.IH [OF rest]
  show ?case
  proof (cases "PreviousVersion p = cursor s")
    case True
    with applyPatch_returned(1,4) [OF one] have "r = Inr True"
      "buffer (patchCh s1) = buffer (patchCh s) @ [p]"
      by simp_all
    with ih rs show ?thesis by (simp add: applied_patches_Cons)
  next
    case False
    with applyPatch_returned(1,3) [OF one] have "r = Inr False" "s1 = s"
      by simp_all
    with ih rs show ?thesis by (simp add: applied_patches_Cons)
  qed
qed

text \<open>
  Claim C1. A patch whose previous version is not the store's cursor is not applied: the call
  returns "not applied" without an error and leaves the store as it was. A patch whose
  previous version is the cursor is applied when \<open>patchCh\<close> has room: the call returns
  "applied" without an error, and the patch's version is the cursor after the call; when
  \<open>patchCh\<close> has no room the call does not return. A sequence of patches that \<open>patchCh\<close>
  has room for returns. For every sequence that returns, the result of each call compares the
  patch's previous version with the cursor that the calls before it left, and the cursor at
  the end is the version of the last patch that was applied (the cursor at the start when none
  was).
\<close>

theorem applyPatch_version_chain:
  "(PreviousVersion p \<noteq> cursor s \<longrightarrow> applyPatch s p = Some (Inr False, s))
   \<and> (PreviousVersion p = cursor s \<and> 0 < room (patchCh s) \<longrightarrow>
        applyPatch s p =
          Some (Inr True, s\<lparr>cursor := Version p,
                             patchCh := (patchCh s)\<lparr>buffer := buffer (patchCh s) @ [p]\<rparr>\<rparr>))
   \<and> (PreviousVersion p = cursor s \<and> room (patchCh s) = 0 \<longrightarrow> applyPatch s p = None)
   \<and> (length ps \<le> room (patchCh s) \<longrightarrow>
        (\<exists>rs s'. applyPatch_seq s ps = Some (rs, s')))
   \<and> (\<forall>rs s'. applyPatch_seq s ps = Some (rs, s') \<longrightarrow>
        length rs = length ps
        \<and> (\<forall>i < length ps. \<exists>ri si.
              applyPatch_seq s (take i ps) = Some (ri, si)
              \<and> rs ! i = Inr (PreviousVersion (ps ! i) = cursor si))
        \<and> cursor s' =
            (case applied_patches rs ps of
               [] \<Rightarrow> cursor s
             | q # qs \<Rightarrow> Version (last (q # qs))))"
proof -
  have seq: "\<forall>rs s'. applyPatch_seq s ps = Some (rs, s') \<longrightarrow>
        length rs = length ps
        \<and> (\<forall>i < length ps. \<exists>ri si.
              applyPatch_seq s (take i ps) = Some (ri, si)
              \<and> rs ! i = Inr (PreviousVersion (ps ! i) = cursor si))
        \<and> cursor s' =
            (case applied_patches rs ps of
               [] \<Rightarrow> cursor s
             | q # qs \<Rightarrow> Version (last (q # qs)))"
    using applyPatch_seq_length applyPatch_seq_nth applyPatch_seq_cursor by blast
  from applyPatch_skip [of p s] applyPatch_apply [of p s] applyPatch_blocked [of p s]
    applyPatch_seq_returns [of ps s] seq
  show ?thesis by blast
qed

theorem applyPatch_version_chain_witness:
  "applyPatch_seq newBigSegmentStoreMock [patch1, patch1x, patch1y] =
     Some ([Inr True, Inr False, Inr True],
           newBigSegmentStoreMock\<lparr>cursor := ''2'',
             patchCh := \<lparr>capacity = 100, buffer = [patch1, patch1y]\<rparr>\<rparr>)
   \<and> applied_patches [Inr True, Inr False, Inr True] [patch1, patch1x, patch1y] =
       [patch1, patch1y]
   \<and> applyPatch newBigSegmentStoreMock patch1x = Some (Inr False, newBigSegmentStoreMock)
   \<and> applyPatch (newBigSegmentStoreMock\<lparr>patchCh := make_chan 0\<rparr>) patch1 = None"
proof -
  let ?s = newBigSegmentStoreMock
  let ?full = "newBigSegmentStoreMock\<lparr>patchCh := make_chan 0\<rparr>"
  have hx: "PreviousVersion patch1x \<noteq> cursor ?s"
    by (simp add: newBigSegmentStoreMock_def patch1x_def)
  have h1: "PreviousVersion patch1 = cursor ?full \<and> room (patchCh ?full) = 0"
    by (simp add: newBigSegmentStoreMock_def patch1_def room_def make_chan_def)
  have r: "length [patch1, patch1x, patch1y] \<le> room (patchCh ?s)"
    by (simp add: newBigSegmentStoreMock_def room_def make_chan_def)
  from applyPatch_version_chain [of patch1x ?s "[patch1, patch1x, patch1y]"] hx r
  have skip: "applyPatch ?s patch1x = Some (Inr False, ?s)"
    and ret: "\<exists>rs s'. applyPatch_seq ?s [patch1, patch1x, patch1y] = Some (rs, s')"
    by blast+
  from applyPatch_version_chain [of patch1 ?full "[]"] h1
  have blocked: "applyPatch ?full patch1 = None" by blast
  have run: "applyPatch_seq ?s [patch1, patch1x, patch1y] =
     Some ([Inr True, Inr False, Inr True],
           ?s\<lparr>cursor := ''2'', patchCh := \<lparr>capacity = 100, buffer = [patch1, patch1y]\<rparr>\<rparr>)"
    by (simp add: applyPatch_def chan_send_def newBigSegmentStoreMock_def make_chan_def
        patch1_def patch1x_def patch1y_def Let_def)
  have ap: "applied_patches [Inr True, Inr False, Inr True] [patch1, patch1x, patch1y] =
       [patch1, patch1y]"
    by (simp add: applied_patches_def)
  from run ap skip blocked show ?thesis by blast
qed

text \<open>While its calls return, the store of the tests keeps the contract of the spec.\<close>

lemma applyPatch_keeps_contract:
  assumes "applyPatch s p = Some (r, s')"
  shows "store_applyPatch (contract_of s) p = (r, contract_of s')"
proof (cases "PreviousVersion p = cursor s")
  case True
  with applyPatch_returned(1,4) [OF assms] show ?thesis
    by (simp add: store_applyPatch_def contract_of_def)
next
  case False
  with applyPatch_returned(1,3) [OF assms] show ?thesis
    by (simp add: store_applyPatch_def contract_of_def)
qed

lemma setSynchronizedOn_keeps_contract:
  assumes "setSynchronizedOn s n = Some (err, s')"
  shows "store_setSynchronizedOn (contract_of s) n = (err, contract_of s')"
  using assms
  by (auto simp: setSynchronizedOn_def store_setSynchronizedOn_def contract_of_def chan_send_def
      split: option.splits if_splits)

section \<open>Properties of the big-segment synchronizer\<close>

lemma applyPatches_chained:
  "chained (storeCursor s) pre \<Longrightarrow> PreviousVersion q \<noteq> cursor_after (storeCursor s) pre \<Longrightarrow>
   applyPatches s (pre @ q # rest) =
     Inr (True, [outOfOrderWarning (PreviousVersion q)],
          s\<lparr>storeCursor := cursor_after (storeCursor s) pre, storeApplied := storeApplied s @ pre\<rparr>)"
proof (induction pre arbitrary: s)
  case Nil
  then show ?case by (simp add: store_applyPatch_def cursor_after_def)
next
  case (Cons p pre)
  let ?s = "s\<lparr>storeCursor := Version p, storeApplied := storeApplied s @ [p]\<rparr>"
  from Cons.prems have p: "PreviousVersion p = storeCursor s" and ch: "chained (storeCursor ?s) pre"
    by simp_all
  from Cons.prems have q: "PreviousVersion q \<noteq> cursor_after (storeCursor ?s) pre"
    by (simp add: cursor_after_def split: if_splits)
  have ca: "cursor_after (storeCursor ?s) pre = cursor_after (storeCursor s) (p # pre)"
    by (simp add: cursor_after_def)
  from Cons.IH [OF ch q] p ca show ?case
    by (simp add: store_applyPatch_def)
qed

lemma applyPatches_all_chained:
  "chained (storeCursor s) ps \<Longrightarrow>
   applyPatches s ps =
     Inr (False, [], s\<lparr>storeCursor := cursor_after (storeCursor s) ps, storeApplied := storeApplied s @ ps\<rparr>)"
proof (induction ps arbitrary: s)
  case Nil
  then show ?case by (simp add: cursor_after_def)
next
  case (Cons p ps)
  let ?s = "s\<lparr>storeCursor := Version p, storeApplied := storeApplied s @ [p]\<rparr>"
  from Cons.prems have p: "PreviousVersion p = storeCursor s" and ch: "chained (storeCursor ?s) ps"
    by simp_all
  have ca: "cursor_after (storeCursor ?s) ps = cursor_after (storeCursor s) (p # ps)"
    by (simp add: cursor_after_def)
  from Cons.IH [OF ch] p ca show ?case
    by (simp add: store_applyPatch_def)
qed

lemma outOfOrderWarning_includes: "sublist v (outOfOrderWarning v)"
  unfolding outOfOrderWarning_def sublist_def by blast

text \<open>
  Claim C2. A poll response whose patches are chained from the store's cursor up to a first
  patch \<open>q\<close> whose previous version is not the cursor then current: the patches before
  \<open>q\<close> are applied in order, \<open>q\<close> and the remainder of the list are not, one warning that
  includes \<open>q\<close>'s previous version is logged, and the next poll request asks for the patches
  after the cursor that the applied patches left.
\<close>

theorem poll_skips_out_of_order:
  assumes "phase y = Polling"
    and "chained (storeCursor (store y)) pre"
    and "PreviousVersion q \<noteq> cursor_after (storeCursor (store y)) pre"
  shows "syncStep now y (PollResponse (pre @ q # rest)) =
           Inr (y\<lparr>store := (store y)\<lparr>storeCursor := cursor_after (storeCursor (store y)) pre,
                                    storeApplied := storeApplied (store y) @ pre\<rparr>,
                  warnings := warnings y @ [outOfOrderWarning (PreviousVersion q)],
                  requests := requests y @
                    [PollRequest (pollQuery (cursor_after (storeCursor (store y)) pre))]\<rparr>)
         \<and> sublist (PreviousVersion q) (outOfOrderWarning (PreviousVersion q))"
proof -
  from assms(2,3) have
    "applyPatches (store y) (pre @ q # rest) =
       Inr (True, [outOfOrderWarning (PreviousVersion q)],
            (store y)\<lparr>storeCursor := cursor_after (storeCursor (store y)) pre,
                      storeApplied := storeApplied (store y) @ pre\<rparr>)"
    by (rule applyPatches_chained)
  with assms(1) show ?thesis
    by (simp add: startPolling_def store_getCursor_def outOfOrderWarning_includes)
qed

theorem poll_skips_out_of_order_witness:
  "syncRun (newSynchronizer emptyStore)
     [(5, Start), (6, PollResponse [patch1, patch1x, patch1y])] =
   Inr \<lparr>phase = Polling,
        store = \<lparr>storeCursor = ''1'', storeApplied = [patch1], storeSynchronizedOn = []\<rparr>,
        requests = [PollRequest [], PollRequest ''after=1''],
        warnings = [outOfOrderWarning ''non-matching-previous-version'']\<rparr>"
proof -
  let ?y = "\<lparr>phase = Polling, store = emptyStore,
             requests = [PollRequest []], warnings = []\<rparr>"
  have started: "syncStep 5 (newSynchronizer emptyStore) Start = Inr ?y"
    by (simp add: newSynchronizer_def startPolling_def store_getCursor_def pollQuery_def
        emptyStore_def)
  have h1: "phase ?y = Polling" by simp
  have h2: "chained (storeCursor (store ?y)) [patch1]"
    by (simp add: emptyStore_def patch1_def)
  have h3: "PreviousVersion patch1x \<noteq> cursor_after (storeCursor (store ?y)) [patch1]"
    by (simp add: cursor_after_def patch1_def patch1x_def)
  have c: "cursor_after (storeCursor (store ?y)) [patch1] = ''1''"
    by (simp add: cursor_after_def patch1_def)
  have v: "PreviousVersion patch1x = ''non-matching-previous-version''"
    by (simp add: patch1x_def)
  from poll_skips_out_of_order [OF h1 h2 h3, of 6 "[patch1y]"] c v
  have "syncStep 6 ?y (PollResponse [patch1, patch1x, patch1y]) =
   Inr \<lparr>phase = Polling,
        store = \<lparr>storeCursor = ''1'', storeApplied = [patch1], storeSynchronizedOn = []\<rparr>,
        requests = [PollRequest [], PollRequest ''after=1''],
        warnings = [outOfOrderWarning ''non-matching-previous-version'']\<rparr>"
    by (simp add: emptyStore_def pollQuery_def)
  with started show ?thesis by simp
qed

text \<open>
  Claim C3. While streaming, a patch \<open>p\<close> whose previous version is not the store's cursor is
  not applied: the store stays as it was, a warning is logged, the stream is closed and the
  cycle starts again with a poll after the unchanged cursor. When that poll has returned an
  empty response and the stream is connected again, a patch \<open>q\<close> whose previous version is
  the cursor is applied.
\<close>

theorem stream_skips_out_of_order:
  assumes "phase y = Streaming"
    and "PreviousVersion p \<noteq> storeCursor (store y)"
    and "PreviousVersion q = storeCursor (store y)"
  shows "syncStep t1 y (StreamPatch p) =
           Inr (y\<lparr>phase := Polling,
                  warnings := warnings y @ [outOfOrderWarning (PreviousVersion p)],
                  requests := requests y @
                    [StreamClose, PollRequest (pollQuery (storeCursor (store y)))]\<rparr>)
         \<and> syncRun y [(t1, StreamPatch p), (t2, PollResponse []), (t3, StreamPatch q)] =
           Inr (y\<lparr>phase := Streaming,
                  store := (store y)\<lparr>storeCursor := Version q,
                                    storeApplied := storeApplied (store y) @ [q],
                                    storeSynchronizedOn := storeSynchronizedOn (store y) @ [t2]\<rparr>,
                  warnings := warnings y @ [outOfOrderWarning (PreviousVersion p)],
                  requests := requests y @
                    [StreamClose, PollRequest (pollQuery (storeCursor (store y))), StreamConnect]\<rparr>)"
  using assms
  by (simp add: store_applyPatch_def startPolling_def store_getCursor_def store_setSynchronizedOn_def)

theorem stream_skips_out_of_order_witness:
  "syncRun (newSynchronizer emptyStore)
     [(5, Start), (6, PollResponse [patch1]), (7, PollResponse []),
      (8, StreamPatch patch2x), (9, PollResponse []), (10, StreamPatch patch2)] =
   Inr \<lparr>phase = Streaming,
        store = \<lparr>storeCursor = ''2'', storeApplied = [patch1, patch2], storeSynchronizedOn = [7, 9]\<rparr>,
        requests = [PollRequest [], PollRequest ''after=1'', StreamConnect,
                    StreamClose, PollRequest ''after=1'', StreamConnect],
        warnings = [outOfOrderWarning ''non-matching-previous-version'']\<rparr>"
proof -
  let ?y = "\<lparr>phase = Streaming,
             store = \<lparr>storeCursor = ''1'', storeApplied = [patch1], storeSynchronizedOn = [7]\<rparr>,
             requests = [PollRequest [], PollRequest ''after=1'', StreamConnect],
             warnings = []\<rparr>"
  have h1: "phase ?y = Streaming" by simp
  have h2: "PreviousVersion patch2x \<noteq> storeCursor (store ?y)" by (simp add: patch2x_def)
  have h3: "PreviousVersion patch2 = storeCursor (store ?y)" by (simp add: patch2_def)
  have v: "PreviousVersion patch2x = ''non-matching-previous-version''"
    and w: "Version patch2 = ''2''"
    by (simp_all add: patch2x_def patch2_def)
  note th = stream_skips_out_of_order [OF h1 h2 h3, of 8 9 10, THEN conjunct2]
  have rest: "syncRun ?y [(8, StreamPatch patch2x), (9, PollResponse []), (10, StreamPatch patch2)] =
   Inr \<lparr>phase = Streaming,
        store = \<lparr>storeCursor = ''2'', storeApplied = [patch1, patch2], storeSynchronizedOn = [7, 9]\<rparr>,
        requests = [PollRequest [], PollRequest ''after=1'', StreamConnect,
                    StreamClose, PollRequest ''after=1'', StreamConnect],
        warnings = [outOfOrderWarning ''non-matching-previous-version'']\<rparr>"
    unfolding th by (simp add: v w pollQuery_def)
  have first: "syncRun (newSynchronizer emptyStore)
     ([(5, Start), (6, PollResponse [patch1]), (7, PollResponse [])] @ evs) = syncRun ?y evs" for evs
    by (simp add: newSynchronizer_def startPolling_def store_getCursor_def pollQuery_def
        emptyStore_def store_applyPatch_def store_setSynchronizedOn_def patch1_def)
  from first [of "[(8, StreamPatch patch2x), (9, PollResponse []), (10, StreamPatch patch2)]"] rest
  show ?thesis by simp
qed

section \<open>Properties of \<open>getEventsImage\<close>\<close>

lemma getEventsImage_goroutine_eq:
  "getEventsImage_goroutine im handler d =
     (handler, NewRecorder,
      \<lparr>Method = ''POST'', URL = [], Query = Map.empty, Vars = Map.empty,
       Header = [''Content-Type'' \<mapsto> [''application/json''],
                 ''X-LaunchDarkly-User-Agent'' \<mapsto> [[]],
                 EventSchemaHeader \<mapsto> [Itoa (SummaryEventsSchemaVersion im)]],
       Body = DecodeString im d\<rparr>)"
  by (simp add: getEventsImage_goroutine_def NewRequest_def Header_Add_def Header_Get_def
      EventSchemaHeader_def Let_def)

text \<open>
  Claim C4 (what the code does). For a request with a non-empty \<open>d\<close> parameter in an
  environment that has a JS events handler, the handler is called once, with a POST whose body
  is the decoded parameter, whose \<open>Content-Type\<close> is \<open>application/json\<close> and whose
  event-schema header is the summary-events schema version; the answer is the image with content
  type \<open>image/gif\<close>. But the POST's \<open>X-LaunchDarkly-User-Agent\<close> header is the empty
  string and it has no \<open>User-Agent\<close> header, whatever the incoming request's headers are:
  the code reads the header from the request it has just created, not from the incoming one.
\<close>

theorem getEventsImage_user_agent_not_carried:
  assumes "disp JavaScriptSDKEventsEndpoint = Some handler"
    and "Values_Get (Query req) ''d'' \<noteq> []"
  shows "getEventsImage im (Some disp) w req =
           (Write (w\<lparr>HeaderMap := Header_Set (HeaderMap w) ''Content-Type'' ''image/gif''\<rparr>)
              (Transparent1PixelImageData im),
            [(handler, NewRecorder,
              \<lparr>Method = ''POST'', URL = [], Query = Map.empty, Vars = Map.empty,
               Header = [''Content-Type'' \<mapsto> [''application/json''],
                         ''X-LaunchDarkly-User-Agent'' \<mapsto> [[]],
                         EventSchemaHeader \<mapsto> [Itoa (SummaryEventsSchemaVersion im)]],
               Body = DecodeString im (Values_Get (Query req) ''d'')\<rparr>)])"
  using assms by (simp add: getEventsImage_def getEventsImage_goroutine_eq Let_def)

theorem getEventsImage_user_agent_not_carried_witness:
  "Header_Get (Header pixelRequest) ''User-Agent'' = ''Mozilla/5.0''
   \<and> Header_Get (Header pixelRequest) ''X-LaunchDarkly-User-Agent'' = ''JSClient/2.1.0''
   \<and> map (\<lambda>(h, nullW, eventsReq).
          (h, Method eventsReq, Body eventsReq,
           Header eventsReq ''User-Agent'',
           Header eventsReq ''X-LaunchDarkly-User-Agent'',
           Header eventsReq ''Content-Type'',
           Header eventsReq EventSchemaHeader))
        (snd (getEventsImage pixelImported (Some pixelDispatcher) NewRecorder pixelRequest)) =
       [(''js-events'', ''POST'', ''{}'', None, Some [[]], Some [''application/json''], Some [''3''])]
   \<and> fst (getEventsImage pixelImported (Some pixelDispatcher) NewRecorder pixelRequest) =
       \<lparr>Code = 200, wroteHeader = True, HeaderMap = [''Content-Type'' \<mapsto> [''image/gif'']],
        BodyBytes = ''GIF89a''\<rparr>"
proof -
  have h1: "pixelDispatcher JavaScriptSDKEventsEndpoint = Some ''js-events''"
    by (simp add: pixelDispatcher_def)
  have h2: "Values_Get (Query pixelRequest) ''d'' \<noteq> []"
    by (simp add: Values_Get_def pixelRequest_def)
  note th = getEventsImage_user_agent_not_carried
    [where disp = pixelDispatcher and handler = "''js-events''" and req = pixelRequest
       and im = pixelImported and w = NewRecorder, OF h1 h2]
  have d: "Values_Get (Query pixelRequest) ''d'' = ''e30=''"
    by (simp add: Values_Get_def pixelRequest_def)
  have ua: "Header_Get (Header pixelRequest) ''User-Agent'' = ''Mozilla/5.0''"
    and lua: "Header_Get (Header pixelRequest) ''X-LaunchDarkly-User-Agent'' = ''JSClient/2.1.0''"
    by (simp_all add: Header_Get_def pixelRequest_def)
  have i3: "Itoa 3 = ''3''" by code_simp
  have calls: "map (\<lambda>(h, nullW, eventsReq).
          (h, Method eventsReq, Body eventsReq,
           Header eventsReq ''User-Agent'',
           Header eventsReq ''X-LaunchDarkly-User-Agent'',
           Header eventsReq ''Content-Type'',
           Header eventsReq EventSchemaHeader))
        (snd (getEventsImage pixelImported (Some pixelDispatcher) NewRecorder pixelRequest)) =
       [(''js-events'', ''POST'', ''{}'', None, Some [[]], Some [''application/json''], Some [''3''])]"
    unfolding th d by (simp add: pixelImported_def EventSchemaHeader_def i3)
  have answer: "fst (getEventsImage pixelImported (Some pixelDispatcher) NewRecorder pixelRequest) =
       \<lparr>Code = 200, wroteHeader = True, HeaderMap = [''Content-Type'' \<mapsto> [''image/gif'']],
        BodyBytes = ''GIF89a''\<rparr>"
    unfolding th
    by (simp add: pixelImported_def NewRecorder_def Write_def WriteHeader_def Header_Set_def)
  from ua lua calls answer show ?thesis by blast
qed

section \<open>Properties of \<open>getSDKCredential\<close>\<close>

lemma fetchAuthToken_found:
  "uuidHeaderPattern (Header_Get (Header req) ''Authorization'') = [whole, token] \<Longrightarrow>
     fetchAuthToken uuidHeaderPattern req = Inr token"
  by (simp add: fetchAuthToken_def)

lemma fetchAuthToken_absent:
  "length (uuidHeaderPattern (Header_Get (Header req) ''Authorization'')) \<noteq> 2 \<Longrightarrow>
     fetchAuthToken uuidHeaderPattern req = Inl ''no valid token found''"
  by (simp add: fetchAuthToken_def)

lemma sdkKinds_distinct:
  "serverSdk \<noteq> mobileSdk" "serverSdk \<noteq> jsClientSdk" "mobileSdk \<noteq> jsClientSdk"
  by (simp_all add: serverSdk_def mobileSdk_def jsClientSdk_def)

text \<open>
  Claim C6. The credential of a request is extracted by SDK kind. For the server and the
  mobile kind: when \<open>uuidHeaderPattern\<close> finds a token in the \<open>Authorization\<close> header, the
  credential is that token as it stands, as an SDK key or as a mobile key; when it finds none,
  the result is the error \<open>no valid token found\<close>, answered with status 401. For the js kind:
  the credential is the \<open>envId\<close> variable of the path as an environment ID; when it is
  absent (or empty) the result is an error, answered with status 404.
\<close>

theorem getSDKCredential_by_kind:
  "(uuidHeaderPattern (Header_Get (Header req) ''Authorization'') = [whole, token] \<longrightarrow>
      getSDKCredential uuidHeaderPattern serverSdk req = Inr (SDKKey token)
      \<and> getSDKCredential uuidHeaderPattern mobileSdk req = Inr (MobileKey token))
   \<and> (length (uuidHeaderPattern (Header_Get (Header req) ''Authorization'')) \<noteq> 2 \<longrightarrow>
      getSDKCredential uuidHeaderPattern serverSdk req = Inl ''no valid token found''
      \<and> getSDKCredential uuidHeaderPattern mobileSdk req = Inl ''no valid token found''
      \<and> credentialErrorStatus serverSdk = 401 \<and> credentialErrorStatus mobileSdk = 401)
   \<and> (Vars_get req ''envId'' \<noteq> [] \<longrightarrow>
      getSDKCredential uuidHeaderPattern jsClientSdk req = Inr (EnvironmentID (Vars_get req ''envId'')))
   \<and> (Vars_get req ''envId'' = [] \<longrightarrow>
      getSDKCredential uuidHeaderPattern jsClientSdk req = Inl ''environment ID not found in URL''
      \<and> credentialErrorStatus jsClientSdk = 404)"
proof -
  have found: "uuidHeaderPattern (Header_Get (Header req) ''Authorization'') = [whole, token] \<longrightarrow>
      getSDKCredential uuidHeaderPattern serverSdk req = Inr (SDKKey token)
      \<and> getSDKCredential uuidHeaderPattern mobileSdk req = Inr (MobileKey token)"
    using sdkKinds_distinct
    by (auto simp: getSDKCredential_def fetchAuthToken_found)
  have absent: "length (uuidHeaderPattern (Header_Get (Header req) ''Authorization'')) \<noteq> 2 \<longrightarrow>
      getSDKCredential uuidHeaderPattern serverSdk req = Inl ''no valid token found''
      \<and> getSDKCredential uuidHeaderPattern mobileSdk req = Inl ''no valid token found''"
    using sdkKinds_distinct
    by (auto simp: getSDKCredential_def fetchAuthToken_absent)
  have status: "credentialErrorStatus serverSdk = 401" "credentialErrorStatus mobileSdk = 401"
    "credentialErrorStatus jsClientSdk = 404"
    using sdkKinds_distinct by (simp_all add: credentialErrorStatus_def)
  have js: "getSDKCredential uuidHeaderPattern jsClientSdk req =
      (if Vars_get req ''envId'' = [] then Inl ''environment ID not found in URL''
       else Inr (EnvironmentID (Vars_get req ''envId'')))"
    using sdkKinds_distinct by (simp add: getSDKCredential_def Let_def)
  from found absent status js show ?thesis by simp
qed

theorem getSDKCredential_by_kind_witness:
  "getSDKCredential keyPattern serverSdk keyRequest =
     Inr (SDKKey ''sdk-98e2b0b4-2688-4a59-9810-1e0e3d7e42d0'')
   \<and> getSDKCredential keyPattern mobileSdk keyRequest =
     Inr (MobileKey ''sdk-98e2b0b4-2688-4a59-9810-1e0e3d7e42d0'')
   \<and> getSDKCredential keyPattern serverSdk pixelRequest = Inl ''no valid token found''
   \<and> getSDKCredential keyPattern jsClientSdk pixelRequest =
     Inr (EnvironmentID ''507f1f77bcf86cd799439011'')
   \<and> getSDKCredential keyPattern jsClientSdk keyRequest = Inl ''environment ID not found in URL''"
proof -
  have k: "keyPattern (Header_Get (Header keyRequest) ''Authorization'') =
      [''sdk-98e2b0b4-2688-4a59-9810-1e0e3d7e42d0'', ''sdk-98e2b0b4-2688-4a59-9810-1e0e3d7e42d0'']"
    by (simp add: keyPattern_def keyRequest_def Header_Get_def)
  have n: "length (keyPattern (Header_Get (Header pixelRequest) ''Authorization'')) \<noteq> 2"
    by (simp add: keyPattern_def pixelRequest_def Header_Get_def)
  have e: "Vars_get pixelRequest ''envId'' = ''507f1f77bcf86cd799439011''"
    by (simp add: Vars_get_def pixelRequest_def)
  have a: "Vars_get keyRequest ''envId'' = []"
    by (simp add: Vars_get_def keyRequest_def)
  from e have e': "Vars_get pixelRequest ''envId'' \<noteq> []" by simp
  from getSDKCredential_by_kind [of keyPattern keyRequest
      "''sdk-98e2b0b4-2688-4a59-9810-1e0e3d7e42d0''" "''sdk-98e2b0b4-2688-4a59-9810-1e0e3d7e42d0''"] k a
  have one: "getSDKCredential keyPattern serverSdk keyRequest =
       Inr (SDKKey ''sdk-98e2b0b4-2688-4a59-9810-1e0e3d7e42d0'')
     \<and> getSDKCredential keyPattern mobileSdk keyRequest =
       Inr (MobileKey ''sdk-98e2b0b4-2688-4a59-9810-1e0e3d7e42d0'')
     \<and> getSDKCredential keyPattern jsClientSdk keyRequest = Inl ''environment ID not found in URL''"
    by blast
  from getSDKCredential_by_kind [of keyPattern pixelRequest] n e e'
  have two: "getSDKCredential keyPattern serverSdk pixelRequest = Inl ''no valid token found''
     \<and> getSDKCredential keyPattern jsClientSdk pixelRequest =
       Inr (EnvironmentID ''507f1f77bcf86cd799439011'')"
    by metis
  from one two show ?thesis by blast
qed

section \<open>Properties of the route table\<close>

text \<open>
  Claim C9 (what the code does). The subrouter for \<open>/events/diagnostic/{envId}\<close> installs
  the CORS-methods middleware constructed from the bulk-events subrouter, not from itself. Of
  the routers that install a CORS-methods middleware it is the only one whose middleware is
  constructed from another router.
\<close>

theorem MakeRouter_diagnostic_cors_from_bulk_router:
  "prefixesOf (MakeRouter debug) clientSideDiagnosticEventsRouter = [''/events/diagnostic/{envId}'']
   \<and> prefixesOf (MakeRouter debug) clientSideBulkEventsRouter = [''/events/bulk/{envId}'']
   \<and> map_option routerUse (subrouter (MakeRouter debug) clientSideDiagnosticEventsRouter) =
       Some [clientSideMiddlewareStack, CORSMethodMiddleware clientSideBulkEventsRouter]
   \<and> map_option routerUse (subrouter (MakeRouter debug) clientSideBulkEventsRouter) =
       Some [clientSideMiddlewareStack, CORSMethodMiddleware clientSideBulkEventsRouter]
   \<and> filter (\<lambda>(r, x). x \<noteq> r) (corsMethodRouters (MakeRouter debug)) =
       [(clientSideDiagnosticEventsRouter, clientSideBulkEventsRouter)]"
proof -
  have prefixes:
    "prefixesOf (MakeRouter debug) clientSideDiagnosticEventsRouter = [''/events/diagnostic/{envId}'']"
    "prefixesOf (MakeRouter debug) clientSideBulkEventsRouter = [''/events/bulk/{envId}'']"
    by (simp_all add: prefixesOf_def MakeRouter_def Let_def)
  have uses:
    "map_option routerUse (subrouter (MakeRouter debug) clientSideDiagnosticEventsRouter) =
       Some [clientSideMiddlewareStack, CORSMethodMiddleware clientSideBulkEventsRouter]"
    "map_option routerUse (subrouter (MakeRouter debug) clientSideBulkEventsRouter) =
       Some [clientSideMiddlewareStack, CORSMethodMiddleware clientSideBulkEventsRouter]"
    by (simp_all add: subrouter_def MakeRouter_def Let_def)
  have "corsMethodRouters (MakeRouter debug) =
     [(goalsRouter, goalsRouter),
      (clientSideSdkEvalRouter, clientSideSdkEvalRouter),
      (clientSideSdkEvalXRouter, clientSideSdkEvalXRouter),
      (clientSidePingRouter, clientSidePingRouter),
      (clientSideStreamEvalRouter, clientSideStreamEvalRouter),
      (clientSideBulkEventsRouter, clientSideBulkEventsRouter),
      (clientSideDiagnosticEventsRouter, clientSideBulkEventsRouter),
      (clientSideImageEventsRouter, clientSideImageEventsRouter)]"
    by (simp add: corsMethodRouters_def MakeRouter_def clientSideMiddlewareStack_def
        serverSideMiddlewareStack_def mobileMiddlewareStack_def Let_def)
  then have others: "filter (\<lambda>(r, x). x \<noteq> r) (corsMethodRouters (MakeRouter debug)) =
       [(clientSideDiagnosticEventsRouter, clientSideBulkEventsRouter)]"
    by simp
  from prefixes uses others show ?thesis by blast
qed

section \<open>Properties of the environment context\<close>

lemma NewEnvContext_goroutine_nil_channel:
  "readyCh (NewEnvContext_goroutine main envName created ctx None) = None"
  by (simp add: NewEnvContext_goroutine_def send_def Let_def split: prod.splits option.splits)

text \<open>
  Without a ready channel (\<open>readyCh\<close> is nil) nothing is delivered: here the client
  factory returns an error that is neither ignored nor fatal, the error is recorded, the
  process does not exit, and no value is sent.
\<close>

theorem NewEnvContext_nil_channel_counterexample:
  "exited (NewEnvContext_goroutine \<lparr>IgnoreConnectionErrors = False, ExitOnError = False\<rparr>
     ''production'' (None, Some ''connection refused'') exampleContext None) = None
   \<and> GetInitError (envContext (NewEnvContext_goroutine
       \<lparr>IgnoreConnectionErrors = False, ExitOnError = False\<rparr>
       ''production'' (None, Some ''connection refused'') exampleContext None)) =
     Some ''connection refused''
   \<and> readyCh (NewEnvContext_goroutine \<lparr>IgnoreConnectionErrors = False, ExitOnError = False\<rparr>
     ''production'' (None, Some ''connection refused'') exampleContext None) = None"
  by (simp add: NewEnvContext_goroutine_def send_def SetClient_def GetInitError_def Let_def)

text \<open>
  Claim C7 (amended). The goroutine of \<open>NewEnvContext\<close>, when a ready channel is given
  (\<open>readyCh\<close> is not nil). When the client
  factory returns an error while \<open>IgnoreConnectionErrors\<close> is false and \<open>ExitOnError\<close>
  is unset, the error is recorded (\<open>GetInitError\<close> returns it), the process does not exit
  and the context is sent on the ready channel. The process exits only when there is an error
  that is not ignored and \<open>ExitOnError\<close> is set; in every other outcome (success, ignored
  error, recorded error) exactly one value is sent on the ready channel, and it is the context.
\<close>

theorem NewEnvContext_ready_once:
  assumes "out = NewEnvContext_goroutine main envName (cl, err) ctx (Some sent)"
  shows "(err = Some e \<and> \<not> IgnoreConnectionErrors main \<and> \<not> ExitOnError main \<longrightarrow>
            GetInitError (envContext out) = Some e
            \<and> exited out = None
            \<and> readyCh out = Some (sent @ [envContext out]))
         \<and> (exited out = None \<longleftrightarrow>
              err = None \<or> IgnoreConnectionErrors main \<or> \<not> ExitOnError main)
         \<and> (exited out = None \<longrightarrow> readyCh out = Some (sent @ [envContext out]))
         \<and> (initErr ctx = None \<longrightarrow> GetInitError (envContext out) = err)
         \<and> GetClient (envContext out) = cl"
proof (cases err)
  case None
  with assms show ?thesis
    by (simp add: NewEnvContext_goroutine_def send_def SetClient_def GetInitError_def
        GetClient_def Let_def)
next
  case (Some e')
  show ?thesis
  proof (cases "IgnoreConnectionErrors main")
    case True
    with Some assms show ?thesis
      by (simp add: NewEnvContext_goroutine_def send_def SetClient_def GetInitError_def
          GetClient_def Let_def)
  next
    case False
    with Some assms show ?thesis
      by (cases "ExitOnError main")
        (simp_all add: NewEnvContext_goroutine_def send_def SetClient_def GetInitError_def
          GetClient_def Let_def)
  qed
qed

theorem NewEnvContext_ready_once_witness:
  "NewEnvContext_goroutine \<lparr>IgnoreConnectionErrors = False, ExitOnError = False\<rparr>
     ''production'' (None, Some ''connection refused'') exampleContext (Some []) =
   \<lparr>envContext = exampleContext\<lparr>initErr := Some ''connection refused''\<rparr>,
    readyCh = Some [exampleContext\<lparr>initErr := Some ''connection refused''\<rparr>],
    logged = [(envLoggers, LogError,
      ''Error initializing LaunchDarkly client for production: connection refused'' @ [CHR 0x0A])],
    exited = None\<rparr>
   \<and> GetInitError (exampleContext\<lparr>initErr := Some ''connection refused''\<rparr>) =
       Some ''connection refused''"
proof -
  let ?main = "\<lparr>IgnoreConnectionErrors = False, ExitOnError = False\<rparr>"
  let ?out = "NewEnvContext_goroutine ?main ''production''
     (None, Some ''connection refused'') exampleContext (Some [])"
  have out: "?out =
   \<lparr>envContext = exampleContext\<lparr>initErr := Some ''connection refused''\<rparr>,
    readyCh = Some [exampleContext\<lparr>initErr := Some ''connection refused''\<rparr>],
    logged = [(envLoggers, LogError,
      ''Error initializing LaunchDarkly client for production: connection refused'' @ [CHR 0x0A])],
    exited = None\<rparr>"
    by (simp add: NewEnvContext_goroutine_def send_def SetClient_def exampleContext_def Let_def)
  have flags: "\<not> IgnoreConnectionErrors ?main" "\<not> ExitOnError ?main" by simp_all
  from NewEnvContext_ready_once
    [where out = ?out and main = ?main and envName = "''production''" and cl = None
       and err = "Some ''connection refused''" and ctx = exampleContext and sent = "[]"
       and e = "''connection refused''", OF refl]
    flags
  have "GetInitError (envContext ?out) = Some ''connection refused''" by blast
  with out show ?thesis by simp
qed

text \<open>
  \<open>Close\<close> returns a nil error on every call. It keeps no mark of having been called: its
  effect is the effect of \<open>EnvStreams.Close\<close> on the streams and, when there are a metrics
  manager and an entry, of \<open>RemoveEnvironment\<close> on the manager, each time it is called.
\<close>

lemma Close_returns_nil: "fst (Close f g c) = None"
  by (simp add: Close_def Let_def split: option.splits)

lemma Close_effect:
  "snd (Close f g c) =
     (case (metricsManager c, metricsEnv c) of
        (Some mm, Some me) \<Rightarrow>
          c\<lparr>envStreams := snd (f (envStreams c)), metricsManager := Some (g mm me)\<rparr>
      | _ \<Rightarrow> c\<lparr>envStreams := snd (f (envStreams c))\<rparr>)"
  by (simp add: Close_def Let_def split: option.splits)

section \<open>Properties of \<open>NewHTTPConfig\<close>\<close>

declare trimPrefixes.simps [simp del]

lemma trimPrefixes_Nil: "trimPrefixes seqs [] = []"
proof -
  have "find (\<lambda>r. r \<noteq> [] \<and> prefix r []) seqs = None"
    by (simp add: find_None_iff)
  then show ?thesis
    by (subst trimPrefixes.simps) simp
qed

lemma TrimSpace_Nil: "TrimSpace [] = []"
  by (simp add: TrimSpace_def trimPrefixes_Nil)

lemma NewHTTPConfig_no_url:
  assumes "NtlmAuth pc" and "Url pc = []"
  shows "NewHTTPConfig libs pc k =
           (\<lparr>ProxyConfig = pc, SDKHTTPConfigFactory = None, SDKHTTPConfig = None\<rparr>,
            Some ''Cannot specify proxy authentication without a proxy URL'', [])"
  using assms by (simp add: NewHTTPConfig_def Let_def)

lemma NewHTTPConfig_no_user:
  assumes "NtlmAuth pc" and "User pc = [] \<or> Password pc = []"
  shows "\<exists>err logs. NewHTTPConfig libs pc k =
           (\<lparr>ProxyConfig = pc, SDKHTTPConfigFactory = None, SDKHTTPConfig = None\<rparr>,
            Some err, logs)
         \<and> (Url pc \<noteq> [] \<and> url_Parse libs (Url pc) = None \<longrightarrow>
              err = ''NTLM proxy authentication requires username and password'')"
proof (cases "Url pc = []")
  case True
  with assms(1) show ?thesis by (simp add: NewHTTPConfig_no_url)
next
  case False
  show ?thesis
  proof (cases "url_Parse libs (Url pc)")
    case None
    with False assms show ?thesis by (auto simp: NewHTTPConfig_def Let_def)
  next
    case (Some e)
    with False assms show ?thesis by (simp add: NewHTTPConfig_def Let_def)
  qed
qed

lemma NewHTTPConfig_no_proxy:
  assumes "Url pc = []" and "\<not> NtlmAuth pc" and "CaCertFiles pc = []"
    and "CreateHTTPConfiguration libs
           (HTTPConfiguration\<lparr>builderUserAgent := ''LDRelay/'' @ version_Version libs\<rparr>) k =
         (Some conf, None)"
  shows "NewHTTPConfig libs pc k =
           (\<lparr>ProxyConfig = pc,
             SDKHTTPConfigFactory =
               Some (HTTPConfiguration\<lparr>builderUserAgent := ''LDRelay/'' @ version_Version libs\<rparr>),
             SDKHTTPConfig = Some conf\<rparr>, None, [])"
  using assms by (simp add: NewHTTPConfig_def Let_def TrimSpace_Nil HTTPConfiguration_def)

text \<open>
  Claim C10. \<open>NewHTTPConfig\<close> returns an error, and a configuration without an SDK HTTP
  configuration, when NTLM authentication is enabled without a proxy URL, and when it is
  enabled with an empty user name or an empty password (the error is the NTLM one when the
  proxy URL is there and parses). A configuration with no proxy settings succeeds, when the
  SDK's \<open>CreateHTTPConfiguration\<close> makes a configuration from the builder that only has the
  user agent set.
\<close>

theorem NewHTTPConfig_proxy_errors:
  "(NtlmAuth pc \<and> Url pc = [] \<longrightarrow>
      NewHTTPConfig libs pc k =
        (\<lparr>ProxyConfig = pc, SDKHTTPConfigFactory = None, SDKHTTPConfig = None\<rparr>,
         Some ''Cannot specify proxy authentication without a proxy URL'', []))
   \<and> (NtlmAuth pc \<and> (User pc = [] \<or> Password pc = []) \<longrightarrow>
      (\<exists>err logs. NewHTTPConfig libs pc k =
         (\<lparr>ProxyConfig = pc, SDKHTTPConfigFactory = None, SDKHTTPConfig = None\<rparr>, Some err, logs)
       \<and> (Url pc \<noteq> [] \<and> url_Parse libs (Url pc) = None \<longrightarrow>
            err = ''NTLM proxy authentication requires username and password'')))
   \<and> (Url pc = [] \<and> \<not> NtlmAuth pc \<and> CaCertFiles pc = []
       \<and> CreateHTTPConfiguration libs
           (HTTPConfiguration\<lparr>builderUserAgent := ''LDRelay/'' @ version_Version libs\<rparr>) k =
         (Some conf, None) \<longrightarrow>
      NewHTTPConfig libs pc k =
        (\<lparr>ProxyConfig = pc,
          SDKHTTPConfigFactory =
            Some (HTTPConfiguration\<lparr>builderUserAgent := ''LDRelay/'' @ version_Version libs\<rparr>),
          SDKHTTPConfig = Some conf\<rparr>, None, []))"
  using NewHTTPConfig_no_url [of pc libs k] NewHTTPConfig_no_user [of pc libs k]
    NewHTTPConfig_no_proxy [of pc libs k conf]
  by blast

theorem NewHTTPConfig_proxy_errors_witness:
  "NewHTTPConfig exampleLibs (noProxy\<lparr>NtlmAuth := True, User := ''u'', Password := ''p''\<rparr>) ''sdk-key'' =
     (\<lparr>ProxyConfig = noProxy\<lparr>NtlmAuth := True, User := ''u'', Password := ''p''\<rparr>,
       SDKHTTPConfigFactory = None, SDKHTTPConfig = None\<rparr>,
      Some ''Cannot specify proxy authentication without a proxy URL'', [])
   \<and> fst (snd (NewHTTPConfig exampleLibs
        (noProxy\<lparr>Url := ''http://proxy:8080'', NtlmAuth := True, User := ''u''\<rparr>) ''sdk-key'')) =
      Some ''NTLM proxy authentication requires username and password''
   \<and> NewHTTPConfig exampleLibs noProxy ''sdk-key'' =
     (\<lparr>ProxyConfig = noProxy,
       SDKHTTPConfigFactory = Some (HTTPConfiguration\<lparr>builderUserAgent := ''LDRelay/6.0.0''\<rparr>),
       SDKHTTPConfig = Some (''LDRelay/6.0.0'', ''sdk-key'')\<rparr>, None, [])"
proof -
  let ?a = "noProxy\<lparr>NtlmAuth := True, User := ''u'', Password := ''p''\<rparr>"
  let ?b = "noProxy\<lparr>Url := ''http://proxy:8080'', NtlmAuth := True, User := ''u''\<rparr>"
  have a: "NtlmAuth ?a \<and> Url ?a = []" by (simp add: noProxy_def)
  have b: "NtlmAuth ?b \<and> (User ?b = [] \<or> Password ?b = [])"
    "Url ?b \<noteq> [] \<and> url_Parse exampleLibs (Url ?b) = None"
    by (simp_all add: noProxy_def exampleLibs_def)
  have c: "Url noProxy = [] \<and> \<not> NtlmAuth noProxy \<and> CaCertFiles noProxy = []
       \<and> CreateHTTPConfiguration exampleLibs
           (HTTPConfiguration\<lparr>builderUserAgent := ''LDRelay/'' @ version_Version exampleLibs\<rparr>)
           ''sdk-key'' = (Some (''LDRelay/6.0.0'', ''sdk-key''), None)"
    by (simp add: noProxy_def exampleLibs_def)
  have v: "version_Version exampleLibs = ''6.0.0''" by (simp add: exampleLibs_def)
  from NewHTTPConfig_proxy_errors [of ?a exampleLibs "''sdk-key''"] a
  have one: "NewHTTPConfig exampleLibs ?a ''sdk-key'' =
     (\<lparr>ProxyConfig = ?a, SDKHTTPConfigFactory = None, SDKHTTPConfig = None\<rparr>,
      Some ''Cannot specify proxy authentication without a proxy URL'', [])"
    by blast
  from NewHTTPConfig_proxy_errors [of ?b exampleLibs "''sdk-key''"] b
  have two: "fst (snd (NewHTTPConfig exampleLibs ?b ''sdk-key'')) =
      Some ''NTLM proxy authentication requires username and password''"
    by force
  from NewHTTPConfig_proxy_errors [of noProxy exampleLibs "''sdk-key''"
      "(''LDRelay/6.0.0'', ''sdk-key'')"] c
  have three: "NewHTTPConfig exampleLibs noProxy ''sdk-key'' =
     (\<lparr>ProxyConfig = noProxy,
       SDKHTTPConfigFactory =
         Some (HTTPConfiguration\<lparr>builderUserAgent := ''LDRelay/'' @ version_Version exampleLibs\<rparr>),
       SDKHTTPConfig = Some (''LDRelay/6.0.0'', ''sdk-key'')\<rparr>, None, [])"
    by blast
  from one two three v show ?thesis by simp
qed

section \<open>Properties of the status endpoint\<close>












end
